theory Spec2Isabelle
  imports Main
begin

section \<open>The schema of the scheduling database\<close>

text \<open>
  The program is the migration \<^verbatim>\<open>supabase/migrations/20250930032716_....sql\<close>: five
  tables with their constraints, the row-level-security policies, and two trigger
  functions. The embedding keeps the tables as lists of rows, every statement as a
  function from a database to either an error or the database after the statement, and
  the engine's rules (three-valued logic, defaults, constraint checks, permissive
  policies, cascades) written out where the migration relies on them.
\<close>

subsection \<open>Column types and SQL's three-valued logic\<close>

type_synonym uuid = nat
type_synonym timestamptz = int
type_synonym time_of_day = nat

text \<open>\<^verbatim>\<open>CREATE TYPE user_role AS ENUM ('student', 'faculty', 'admin')\<close>\<close>

datatype user_role = Student | Faculty | Admin

text \<open>
  A column value is an \<open>option\<close>: \<open>None\<close> is SQL's NULL. A comparison with NULL is
  NULL. A CHECK constraint rejects a row only when its expression is false; a policy
  expression or a WHERE clause accepts a row only when it is true.
\<close>

definition sql_eq :: "'a option \<Rightarrow> 'a option \<Rightarrow> bool option" where
  "sql_eq a b = (case a of None \<Rightarrow> None
                 | Some x \<Rightarrow> (case b of None \<Rightarrow> None | Some y \<Rightarrow> Some (x = y)))"

definition sql_gt :: "('a::linorder) option \<Rightarrow> 'a option \<Rightarrow> bool option" where
  "sql_gt a b = (case a of None \<Rightarrow> None
                 | Some x \<Rightarrow> (case b of None \<Rightarrow> None | Some y \<Rightarrow> Some (x > y)))"

definition sql_ge :: "('a::linorder) option \<Rightarrow> 'a option \<Rightarrow> bool option" where
  "sql_ge a b = (case a of None \<Rightarrow> None
                 | Some x \<Rightarrow> (case b of None \<Rightarrow> None | Some y \<Rightarrow> Some (x \<ge> y)))"

definition sql_and :: "bool option \<Rightarrow> bool option \<Rightarrow> bool option" where
  "sql_and a b = (if a = Some False \<or> b = Some False then Some False
                  else if a = Some True \<and> b = Some True then Some True else None)"

text \<open>\<open>x IN (v1, ..., vn)\<close> with literals that are not NULL.\<close>

definition sql_in :: "'a option \<Rightarrow> 'a list \<Rightarrow> bool option" where
  "sql_in a vs = (case a of None \<Rightarrow> None | Some x \<Rightarrow> Some (x \<in> set vs))"

definition sql_exists :: "'a list \<Rightarrow> bool option" where
  "sql_exists rows = Some (rows \<noteq> [])"

definition coalesce :: "'a option \<Rightarrow> 'a option \<Rightarrow> 'a option" where
  "coalesce a b = (case a of Some x \<Rightarrow> Some x | None \<Rightarrow> b)"

definition check_holds :: "bool option \<Rightarrow> bool" where
  "check_holds b = (b \<noteq> Some False)"

definition qual_holds :: "bool option \<Rightarrow> bool" where
  "qual_holds b = (b = Some True)"

text \<open>
  The signup metadata is a JSON object. The migration reads it only through the
  operator \<^verbatim>\<open>->>\<close>, so an object is kept as its keys, each with the text of its value
  (\<open>None\<close> for a JSON null). The operator is NULL on a NULL document, on a missing key
  and on a JSON null.
\<close>

type_synonym jsonb = "(string \<times> string option) list"

definition json_get_text :: "jsonb option \<Rightarrow> string \<Rightarrow> string option" where
  "json_get_text j k = (case j of None \<Rightarrow> None
     | Some obj \<Rightarrow> (case map_of obj k of Some (Some s) \<Rightarrow> Some s | _ \<Rightarrow> None))"

subsection \<open>Rows\<close>

text \<open>
  Every table has the columns \<open>id\<close>, \<open>created_at\<close> and \<open>updated_at\<close>; they form the
  common part of a row, which the timestamp trigger works on. Every column is nullable
  in the row type; NOT NULL is a constraint checked when a row is written.
\<close>

record row =
  row_id :: "uuid option"
  created_at :: "timestamptz option"
  updated_at :: "timestamptz option"

record profile = row +
  pr_user_id :: "uuid option"
  pr_name :: "string option"
  pr_email :: "string option"
  pr_role :: "user_role option"
  pr_department :: "string option"
  pr_phone :: "string option"

record classroom = row +
  cr_room_name :: "string option"
  cr_capacity :: "int option"
  cr_equipment :: "string list option"
  cr_location :: "string option"
  cr_availability_status :: "bool option"
  cr_remarks :: "string option"

record course = row +
  co_course_code :: "string option"
  co_course_name :: "string option"
  co_department :: "string option"
  co_credits :: "int option"
  co_description :: "string option"

record timetable_entry = row +
  tt_course_id :: "uuid option"
  tt_faculty_id :: "uuid option"
  tt_room_id :: "uuid option"
  tt_day_of_week :: "string option"
  tt_start_time :: "time_of_day option"
  tt_end_time :: "time_of_day option"
  tt_semester :: "string option"
  tt_academic_year :: "string option"

record feedback_row = row +
  fb_user_id :: "uuid option"
  fb_title :: "string option"
  fb_message :: "string option"
  fb_status :: "string option"

text \<open>
  \<open>auth.users\<close> belongs to the authentication service. The migration uses its primary
  key \<open>id\<close>, \<open>email\<close> and \<open>raw_user_meta_data\<close>; the last two may be NULL.
\<close>

record auth_user =
  u_id :: uuid
  u_email :: "string option"
  u_raw_user_meta_data :: "jsonb option"

record db =
  users :: "auth_user list"
  profiles :: "profile list"
  classrooms :: "classroom list"
  courses :: "course list"
  timetable :: "timetable_entry list"
  feedback :: "feedback_row list"

definition empty_db :: db where
  "empty_db = \<lparr>users = [], profiles = [], classrooms = [], courses = [],
               timetable = [], feedback = []\<rparr>"

text \<open>
  What a statement sees of its environment: \<open>auth.uid()\<close> of the request (NULL for an
  anonymous one), whether its role bypasses row-level security (the tables' owner and
  the service role do: the migration enables, but does not force, row-level security),
  the value of \<open>NOW()\<close>, which is the start time of the transaction, and the value
  \<open>gen_random_uuid()\<close> returns.
\<close>

record ctx =
  auth_uid :: "uuid option"
  bypass_rls :: bool
  now :: timestamptz
  gen_random_uuid :: uuid

datatype error =
  Not_Null_Violation | Check_Violation | Unique_Violation | Foreign_Key_Violation
  | Rls_Violation

subsection \<open>Column lists of INSERT and UPDATE\<close>

text \<open>
  A statement either omits a column or supplies a value for it, possibly NULL. An
  INSERT fills an omitted column with its default; an UPDATE keeps the old value.
\<close>

datatype 'a col = Omitted | Supplied "'a option"

fun set_col :: "'a option \<Rightarrow> 'a col \<Rightarrow> 'a option" where
  "set_col base Omitted = base"
| "set_col base (Supplied v) = v"

record row_cols =
  c_id :: "uuid col"
  c_created_at :: "timestamptz col"
  c_updated_at :: "timestamptz col"

record profile_cols = row_cols +
  c_pr_user_id :: "uuid col"
  c_pr_name :: "string col"
  c_pr_email :: "string col"
  c_pr_role :: "user_role col"
  c_pr_department :: "string col"
  c_pr_phone :: "string col"

record classroom_cols = row_cols +
  c_cr_room_name :: "string col"
  c_cr_capacity :: "int col"
  c_cr_equipment :: "string list col"
  c_cr_location :: "string col"
  c_cr_availability_status :: "bool col"
  c_cr_remarks :: "string col"

record course_cols = row_cols +
  c_co_course_code :: "string col"
  c_co_course_name :: "string col"
  c_co_department :: "string col"
  c_co_credits :: "int col"
  c_co_description :: "string col"

record timetable_cols = row_cols +
  c_tt_course_id :: "uuid col"
  c_tt_faculty_id :: "uuid col"
  c_tt_room_id :: "uuid col"
  c_tt_day_of_week :: "string col"
  c_tt_start_time :: "time_of_day col"
  c_tt_end_time :: "time_of_day col"
  c_tt_semester :: "string col"
  c_tt_academic_year :: "string col"

record feedback_cols = row_cols +
  c_fb_user_id :: "uuid col"
  c_fb_title :: "string col"
  c_fb_message :: "string col"
  c_fb_status :: "string col"

subsection \<open>Defaults and assignment, table by table\<close>

definition profile_defaults :: "ctx \<Rightarrow> profile" where
  "profile_defaults c =
     \<lparr>row_id = Some (gen_random_uuid c), created_at = Some (now c), updated_at = Some (now c),
      pr_user_id = None, pr_name = None, pr_email = None, pr_role = Some Student,
      pr_department = None, pr_phone = None\<rparr>"

definition profile_assign :: "profile \<Rightarrow> profile_cols \<Rightarrow> profile" where
  "profile_assign b s =
     \<lparr>row_id = set_col (row_id b) (c_id s),
      created_at = set_col (created_at b) (c_created_at s),
      updated_at = set_col (updated_at b) (c_updated_at s),
      pr_user_id = set_col (pr_user_id b) (c_pr_user_id s),
      pr_name = set_col (pr_name b) (c_pr_name s),
      pr_email = set_col (pr_email b) (c_pr_email s),
      pr_role = set_col (pr_role b) (c_pr_role s),
      pr_department = set_col (pr_department b) (c_pr_department s),
      pr_phone = set_col (pr_phone b) (c_pr_phone s)\<rparr>"

definition classroom_defaults :: "ctx \<Rightarrow> classroom" where
  "classroom_defaults c =
     \<lparr>row_id = Some (gen_random_uuid c), created_at = Some (now c), updated_at = Some (now c),
      cr_room_name = None, cr_capacity = None, cr_equipment = None, cr_location = None,
      cr_availability_status = Some True, cr_remarks = None\<rparr>"

definition classroom_assign :: "classroom \<Rightarrow> classroom_cols \<Rightarrow> classroom" where
  "classroom_assign b s =
     \<lparr>row_id = set_col (row_id b) (c_id s),
      created_at = set_col (created_at b) (c_created_at s),
      updated_at = set_col (updated_at b) (c_updated_at s),
      cr_room_name = set_col (cr_room_name b) (c_cr_room_name s),
      cr_capacity = set_col (cr_capacity b) (c_cr_capacity s),
      cr_equipment = set_col (cr_equipment b) (c_cr_equipment s),
      cr_location = set_col (cr_location b) (c_cr_location s),
      cr_availability_status = set_col (cr_availability_status b) (c_cr_availability_status s),
      cr_remarks = set_col (cr_remarks b) (c_cr_remarks s)\<rparr>"

definition course_defaults :: "ctx \<Rightarrow> course" where
  "course_defaults c =
     \<lparr>row_id = Some (gen_random_uuid c), created_at = Some (now c), updated_at = Some (now c),
      co_course_code = None, co_course_name = None, co_department = None,
      co_credits = Some 3, co_description = None\<rparr>"

definition course_assign :: "course \<Rightarrow> course_cols \<Rightarrow> course" where
  "course_assign b s =
     \<lparr>row_id = set_col (row_id b) (c_id s),
      created_at = set_col (created_at b) (c_created_at s),
      updated_at = set_col (updated_at b) (c_updated_at s),
      co_course_code = set_col (co_course_code b) (c_co_course_code s),
      co_course_name = set_col (co_course_name b) (c_co_course_name s),
      co_department = set_col (co_department b) (c_co_department s),
      co_credits = set_col (co_credits b) (c_co_credits s),
      co_description = set_col (co_description b) (c_co_description s)\<rparr>"

definition timetable_defaults :: "ctx \<Rightarrow> timetable_entry" where
  "timetable_defaults c =
     \<lparr>row_id = Some (gen_random_uuid c), created_at = Some (now c), updated_at = Some (now c),
      tt_course_id = None, tt_faculty_id = None, tt_room_id = None, tt_day_of_week = None,
      tt_start_time = None, tt_end_time = None, tt_semester = None,
      tt_academic_year = None\<rparr>"

definition timetable_assign :: "timetable_entry \<Rightarrow> timetable_cols \<Rightarrow> timetable_entry" where
  "timetable_assign b s =
     \<lparr>row_id = set_col (row_id b) (c_id s),
      created_at = set_col (created_at b) (c_created_at s),
      updated_at = set_col (updated_at b) (c_updated_at s),
      tt_course_id = set_col (tt_course_id b) (c_tt_course_id s),
      tt_faculty_id = set_col (tt_faculty_id b) (c_tt_faculty_id s),
      tt_room_id = set_col (tt_room_id b) (c_tt_room_id s),
      tt_day_of_week = set_col (tt_day_of_week b) (c_tt_day_of_week s),
      tt_start_time = set_col (tt_start_time b) (c_tt_start_time s),
      tt_end_time = set_col (tt_end_time b) (c_tt_end_time s),
      tt_semester = set_col (tt_semester b) (c_tt_semester s),
      tt_academic_year = set_col (tt_academic_year b) (c_tt_academic_year s)\<rparr>"

definition feedback_defaults :: "ctx \<Rightarrow> feedback_row" where
  "feedback_defaults c =
     \<lparr>row_id = Some (gen_random_uuid c), created_at = Some (now c), updated_at = Some (now c),
      fb_user_id = None, fb_title = None, fb_message = None, fb_status = Some ''pending''\<rparr>"

definition feedback_assign :: "feedback_row \<Rightarrow> feedback_cols \<Rightarrow> feedback_row" where
  "feedback_assign b s =
     \<lparr>row_id = set_col (row_id b) (c_id s),
      created_at = set_col (created_at b) (c_created_at s),
      updated_at = set_col (updated_at b) (c_updated_at s),
      fb_user_id = set_col (fb_user_id b) (c_fb_user_id s),
      fb_title = set_col (fb_title b) (c_fb_title s),
      fb_message = set_col (fb_message b) (c_fb_message s),
      fb_status = set_col (fb_status b) (c_fb_status s)\<rparr>"

subsection \<open>Constraints\<close>

text \<open>NOT NULL columns (the primary key included) and the CHECK constraints of each table.\<close>

definition profile_not_null :: "profile \<Rightarrow> bool" where
  "profile_not_null r = (row_id r \<noteq> None \<and> pr_user_id r \<noteq> None \<and> pr_name r \<noteq> None
     \<and> pr_email r \<noteq> None \<and> pr_role r \<noteq> None)"

definition classroom_not_null :: "classroom \<Rightarrow> bool" where
  "classroom_not_null r = (row_id r \<noteq> None \<and> cr_room_name r \<noteq> None \<and> cr_capacity r \<noteq> None
     \<and> cr_location r \<noteq> None)"

definition classroom_check :: "classroom \<Rightarrow> bool" where
  "classroom_check r = check_holds (sql_gt (cr_capacity r) (Some 0))"

definition course_not_null :: "course \<Rightarrow> bool" where
  "course_not_null r = (row_id r \<noteq> None \<and> co_course_code r \<noteq> None
     \<and> co_course_name r \<noteq> None \<and> co_department r \<noteq> None)"

definition course_check :: "course \<Rightarrow> bool" where
  "course_check r = check_holds (sql_gt (co_credits r) (Some 0))"

definition timetable_not_null :: "timetable_entry \<Rightarrow> bool" where
  "timetable_not_null r = (row_id r \<noteq> None \<and> tt_course_id r \<noteq> None \<and> tt_faculty_id r \<noteq> None
     \<and> tt_room_id r \<noteq> None \<and> tt_day_of_week r \<noteq> None \<and> tt_start_time r \<noteq> None
     \<and> tt_end_time r \<noteq> None \<and> tt_semester r \<noteq> None \<and> tt_academic_year r \<noteq> None)"

definition valid_time_range :: "timetable_entry \<Rightarrow> bool" where
  "valid_time_range r = check_holds (sql_gt (tt_end_time r) (tt_start_time r))"

definition timetable_check :: "timetable_entry \<Rightarrow> bool" where
  "timetable_check r =
     (check_holds (sql_in (tt_day_of_week r)
        [''Monday'', ''Tuesday'', ''Wednesday'', ''Thursday'', ''Friday'', ''Saturday'',
         ''Sunday''])
      \<and> valid_time_range r)"

definition feedback_not_null :: "feedback_row \<Rightarrow> bool" where
  "feedback_not_null r = (row_id r \<noteq> None \<and> fb_user_id r \<noteq> None \<and> fb_title r \<noteq> None
     \<and> fb_message r \<noteq> None)"

definition feedback_check :: "feedback_row \<Rightarrow> bool" where
  "feedback_check r =
     check_holds (sql_in (fb_status r) [''pending'', ''reviewed'', ''resolved''])"

text \<open>
  A UNIQUE or PRIMARY KEY column of the new row must differ from that column in every
  other row (a NULL never collides). A foreign key that is not NULL must be a key of the
  referenced table. The foreign keys on \<open>timetable\<close> say nothing ON UPDATE, so changing
  a referenced key fails while an entry still refers to it.
\<close>

definition unique_ok :: "('r \<Rightarrow> 'k option) \<Rightarrow> 'r \<Rightarrow> 'r list \<Rightarrow> bool" where
  "unique_ok key new others = (key new = None \<or> key new \<notin> set (map key others))"

definition fk_ok :: "'k option \<Rightarrow> 'k option list \<Rightarrow> bool" where
  "fk_ok v keys = (v = None \<or> v \<in> set keys)"

definition key_change_ok :: "uuid \<Rightarrow> uuid option list \<Rightarrow> uuid option list \<Rightarrow> bool" where
  "key_change_ok k keys refs = (Some k \<in> set keys \<or> Some k \<notin> set refs)"

definition find_row :: "uuid \<Rightarrow> ('a row_scheme) list
    \<Rightarrow> (('a row_scheme) list \<times> 'a row_scheme \<times> ('a row_scheme) list) option" where
  "find_row k rows = List.extract (\<lambda>r. row_id r = Some k) rows"

subsection \<open>Row-level security\<close>

text \<open>
  All policies of the migration are permissive: a row passes when one policy that
  applies to the command accepts it, and with no such policy nothing passes. A policy
  FOR ALL applies to every command. A policy without WITH CHECK uses its USING
  expression to check new rows.
\<close>

datatype command = For_Select | For_Insert | For_Update | For_Delete | For_All

type_synonym 'r expr = "ctx \<Rightarrow> db \<Rightarrow> 'r \<Rightarrow> bool option"

datatype 'r policy =
  Policy (pol_name: string) (pol_for: command) (pol_using: "'r expr option")
    (pol_with_check: "'r expr option")

definition applies_to :: "command \<Rightarrow> 'r policy \<Rightarrow> bool" where
  "applies_to c p = (pol_for p = c \<or> pol_for p = For_All)"

definition using_expr :: "'r policy \<Rightarrow> 'r expr" where
  "using_expr p = (case pol_using p of Some e \<Rightarrow> e | None \<Rightarrow> (\<lambda>_ _ _. Some True))"

definition check_expr :: "'r policy \<Rightarrow> 'r expr" where
  "check_expr p = (case pol_with_check p of Some e \<Rightarrow> e | None \<Rightarrow> using_expr p)"

definition policy_using :: "'r policy list \<Rightarrow> command \<Rightarrow> ctx \<Rightarrow> db \<Rightarrow> 'r \<Rightarrow> bool" where
  "policy_using pols c cx st r =
     (\<exists>p \<in> set pols. applies_to c p \<and> qual_holds (using_expr p cx st r))"

definition policy_check :: "'r policy list \<Rightarrow> command \<Rightarrow> ctx \<Rightarrow> db \<Rightarrow> 'r \<Rightarrow> bool" where
  "policy_check pols c cx st r =
     (\<exists>p \<in> set pols. applies_to c p \<and> qual_holds (check_expr p cx st r))"

definition rls_using :: "'r policy list \<Rightarrow> command \<Rightarrow> ctx \<Rightarrow> db \<Rightarrow> 'r \<Rightarrow> bool" where
  "rls_using pols c cx st r = (bypass_rls cx \<or> policy_using pols c cx st r)"

definition rls_check :: "'r policy list \<Rightarrow> command \<Rightarrow> ctx \<Rightarrow> db \<Rightarrow> 'r \<Rightarrow> bool" where
  "rls_check pols c cx st r = (bypass_rls cx \<or> policy_check pols c cx st r)"

text \<open>
  An UPDATE or DELETE that names its rows by \<open>id\<close> reads them, so the row must also pass
  the SELECT policies; so must the new row of an UPDATE.
\<close>

definition rls_old_row :: "'r policy list \<Rightarrow> command \<Rightarrow> ctx \<Rightarrow> db \<Rightarrow> 'r \<Rightarrow> bool" where
  "rls_old_row pols c cx st r =
     (rls_using pols For_Select cx st r \<and> rls_using pols c cx st r)"

definition rls_new_row :: "'r policy list \<Rightarrow> ctx \<Rightarrow> db \<Rightarrow> 'r \<Rightarrow> bool" where
  "rls_new_row pols cx st r =
     (rls_check pols For_Update cx st r \<and> rls_using pols For_Select cx st r)"

definition profiles_policies :: "profile policy list" where
  "profiles_policies =
     [Policy ''Users can view all profiles'' For_Select (Some (\<lambda>cx st r. Some True)) None,
      Policy ''Users can update their own profile'' For_Update
        (Some (\<lambda>cx st r. sql_eq (auth_uid cx) (pr_user_id r))) None,
      Policy ''Users can insert their own profile'' For_Insert
        None (Some (\<lambda>cx st r. sql_eq (auth_uid cx) (pr_user_id r)))]"

definition select_profiles :: "ctx \<Rightarrow> db \<Rightarrow> profile list" where
  "select_profiles cx st = filter (rls_using profiles_policies For_Select cx st) (profiles st)"

text \<open>
  \<^verbatim>\<open>EXISTS (SELECT 1 FROM public.profiles WHERE user_id = auth.uid() AND role = 'admin')\<close>
  and the same with \<^verbatim>\<open>role IN ('admin', 'faculty')\<close>. The subquery reads \<open>profiles\<close>
  as the requesting role does.
\<close>

definition exists_admin_profile :: "ctx \<Rightarrow> db \<Rightarrow> bool option" where
  "exists_admin_profile cx st =
     sql_exists (filter
       (\<lambda>p. qual_holds (sql_and (sql_eq (pr_user_id p) (auth_uid cx))
                                 (sql_eq (pr_role p) (Some Admin))))
       (select_profiles cx st))"

definition exists_admin_or_faculty_profile :: "ctx \<Rightarrow> db \<Rightarrow> bool option" where
  "exists_admin_or_faculty_profile cx st =
     sql_exists (filter
       (\<lambda>p. qual_holds (sql_and (sql_eq (pr_user_id p) (auth_uid cx))
                                 (sql_in (pr_role p) [Admin, Faculty])))
       (select_profiles cx st))"

definition classrooms_policies :: "classroom policy list" where
  "classrooms_policies =
     [Policy ''Anyone can view classrooms'' For_Select (Some (\<lambda>cx st r. Some True)) None,
      Policy ''Admins can manage classrooms'' For_All
        (Some (\<lambda>cx st r. exists_admin_profile cx st)) None]"

definition courses_policies :: "course policy list" where
  "courses_policies =
     [Policy ''Anyone can view courses'' For_Select (Some (\<lambda>cx st r. Some True)) None,
      Policy ''Admins can manage courses'' For_All
        (Some (\<lambda>cx st r. exists_admin_profile cx st)) None]"

definition timetable_policies :: "timetable_entry policy list" where
  "timetable_policies =
     [Policy ''Anyone can view timetable'' For_Select (Some (\<lambda>cx st r. Some True)) None,
      Policy ''Admins and faculty can manage timetable'' For_All
        (Some (\<lambda>cx st r. exists_admin_or_faculty_profile cx st)) None]"

definition feedback_policies :: "feedback_row policy list" where
  "feedback_policies =
     [Policy ''Users can view their own feedback'' For_Select
        (Some (\<lambda>cx st r. sql_eq (auth_uid cx) (fb_user_id r))) None,
      Policy ''Users can create feedback'' For_Insert
        None (Some (\<lambda>cx st r. sql_eq (auth_uid cx) (fb_user_id r))),
      Policy ''Admins can view all feedback'' For_Select
        (Some (\<lambda>cx st r. exists_admin_profile cx st)) None]"

definition select_classrooms :: "ctx \<Rightarrow> db \<Rightarrow> classroom list" where
  "select_classrooms cx st =
     filter (rls_using classrooms_policies For_Select cx st) (classrooms st)"

definition select_courses :: "ctx \<Rightarrow> db \<Rightarrow> course list" where
  "select_courses cx st = filter (rls_using courses_policies For_Select cx st) (courses st)"

definition select_timetable :: "ctx \<Rightarrow> db \<Rightarrow> timetable_entry list" where
  "select_timetable cx st =
     filter (rls_using timetable_policies For_Select cx st) (timetable st)"

definition select_feedback :: "ctx \<Rightarrow> db \<Rightarrow> feedback_row list" where
  "select_feedback cx st = filter (rls_using feedback_policies For_Select cx st) (feedback st)"

subsection \<open>The timestamp trigger\<close>

text \<open>
  \<^verbatim>\<open>update_updated_at_column\<close>: \<^verbatim>\<open>NEW.updated_at = NOW(); RETURN NEW;\<close>, attached
  BEFORE UPDATE, FOR EACH ROW, to all five tables.
\<close>

definition update_updated_at_column :: "ctx \<Rightarrow> 'a row_scheme \<Rightarrow> 'a row_scheme" where
  "update_updated_at_column cx new = new\<lparr>updated_at := Some (now cx)\<rparr>"

subsection \<open>Statements\<close>

text \<open>
  An INSERT builds the row from the defaults and the column list, then the engine checks
  the policies' WITH CHECK, NOT NULL and CHECK, the unique indexes and the foreign keys,
  in this order; the first failure aborts the statement and leaves the database as it
  was (\<open>Inl\<close>). An UPDATE or DELETE names its row by primary key; a row that does not
  exist or that the policies hide is not touched, which is no error. An UPDATE runs the
  BEFORE UPDATE trigger on the new row and then checks it as an INSERT does. A DELETE
  removes the entries of \<open>timetable\<close> that refer to the row (ON DELETE CASCADE); the
  cascade is the engine's and is not subject to the policies.
\<close>

definition insert_profile :: "ctx \<Rightarrow> profile_cols \<Rightarrow> db \<Rightarrow> error + db" where
  "insert_profile cx s st =
     (let new = profile_assign (profile_defaults cx) s in
      if \<not> rls_check profiles_policies For_Insert cx st new then Inl Rls_Violation
      else if \<not> profile_not_null new then Inl Not_Null_Violation
      else if \<not> (unique_ok row_id new (profiles st) \<and> unique_ok pr_user_id new (profiles st)) then Inl Unique_Violation
      else if \<not> (fk_ok (pr_user_id new) (map (\<lambda>u. Some (u_id u)) (users st))) then Inl Foreign_Key_Violation
      else Inr (st\<lparr>profiles := profiles st @ [new]\<rparr>))"

definition update_profile :: "ctx \<Rightarrow> uuid \<Rightarrow> profile_cols \<Rightarrow> db \<Rightarrow> error + db" where
  "update_profile cx k s st =
     (case find_row k (profiles st) of
        None \<Rightarrow> Inr st
      | Some (pre, old, post) \<Rightarrow>
          if \<not> rls_old_row profiles_policies For_Update cx st old then Inr st
          else let new = update_updated_at_column cx (profile_assign old s) in
          if \<not> rls_new_row profiles_policies cx st new then Inl Rls_Violation
          else if \<not> profile_not_null new then Inl Not_Null_Violation
          else if \<not> (unique_ok row_id new (pre @ post) \<and> unique_ok pr_user_id new (pre @ post)) then Inl Unique_Violation
          else if \<not> (fk_ok (pr_user_id new) (map (\<lambda>u. Some (u_id u)) (users st))
                    \<and> key_change_ok k (map row_id (pre @ new # post)) (map tt_faculty_id (timetable st)))
            then Inl Foreign_Key_Violation
          else Inr (st\<lparr>profiles := pre @ new # post\<rparr>))"

definition delete_profile :: "ctx \<Rightarrow> uuid \<Rightarrow> db \<Rightarrow> error + db" where
  "delete_profile cx k st =
     (case find_row k (profiles st) of
        None \<Rightarrow> Inr st
      | Some (pre, old, post) \<Rightarrow>
          if \<not> rls_old_row profiles_policies For_Delete cx st old then Inr st
          else Inr (st\<lparr>profiles := pre @ post,
                      timetable := filter (\<lambda>t. tt_faculty_id t \<noteq> Some k) (timetable st)\<rparr>))"

definition insert_classroom :: "ctx \<Rightarrow> classroom_cols \<Rightarrow> db \<Rightarrow> error + db" where
  "insert_classroom cx s st =
     (let new = classroom_assign (classroom_defaults cx) s in
      if \<not> rls_check classrooms_policies For_Insert cx st new then Inl Rls_Violation
      else if \<not> classroom_not_null new then Inl Not_Null_Violation
      else if \<not> classroom_check new then Inl Check_Violation
      else if \<not> (unique_ok row_id new (classrooms st) \<and> unique_ok cr_room_name new (classrooms st)) then Inl Unique_Violation
      else Inr (st\<lparr>classrooms := classrooms st @ [new]\<rparr>))"

definition update_classroom :: "ctx \<Rightarrow> uuid \<Rightarrow> classroom_cols \<Rightarrow> db \<Rightarrow> error + db" where
  "update_classroom cx k s st =
     (case find_row k (classrooms st) of
        None \<Rightarrow> Inr st
      | Some (pre, old, post) \<Rightarrow>
          if \<not> rls_old_row classrooms_policies For_Update cx st old then Inr st
          else let new = update_updated_at_column cx (classroom_assign old s) in
          if \<not> rls_new_row classrooms_policies cx st new then Inl Rls_Violation
          else if \<not> classroom_not_null new then Inl Not_Null_Violation
          else if \<not> classroom_check new then Inl Check_Violation
          else if \<not> (unique_ok row_id new (pre @ post) \<and> unique_ok cr_room_name new (pre @ post)) then Inl Unique_Violation
          else if \<not> (key_change_ok k (map row_id (pre @ new # post)) (map tt_room_id (timetable st)))
            then Inl Foreign_Key_Violation
          else Inr (st\<lparr>classrooms := pre @ new # post\<rparr>))"

definition delete_classroom :: "ctx \<Rightarrow> uuid \<Rightarrow> db \<Rightarrow> error + db" where
  "delete_classroom cx k st =
     (case find_row k (classrooms st) of
        None \<Rightarrow> Inr st
      | Some (pre, old, post) \<Rightarrow>
          if \<not> rls_old_row classrooms_policies For_Delete cx st old then Inr st
          else Inr (st\<lparr>classrooms := pre @ post,
                      timetable := filter (\<lambda>t. tt_room_id t \<noteq> Some k) (timetable st)\<rparr>))"

definition insert_course :: "ctx \<Rightarrow> course_cols \<Rightarrow> db \<Rightarrow> error + db" where
  "insert_course cx s st =
     (let new = course_assign (course_defaults cx) s in
      if \<not> rls_check courses_policies For_Insert cx st new then Inl Rls_Violation
      else if \<not> course_not_null new then Inl Not_Null_Violation
      else if \<not> course_check new then Inl Check_Violation
      else if \<not> (unique_ok row_id new (courses st) \<and> unique_ok co_course_code new (courses st)) then Inl Unique_Violation
      else Inr (st\<lparr>courses := courses st @ [new]\<rparr>))"

definition update_course :: "ctx \<Rightarrow> uuid \<Rightarrow> course_cols \<Rightarrow> db \<Rightarrow> error + db" where
  "update_course cx k s st =
     (case find_row k (courses st) of
        None \<Rightarrow> Inr st
      | Some (pre, old, post) \<Rightarrow>
          if \<not> rls_old_row courses_policies For_Update cx st old then Inr st
          else let new = update_updated_at_column cx (course_assign old s) in
          if \<not> rls_new_row courses_policies cx st new then Inl Rls_Violation
          else if \<not> course_not_null new then Inl Not_Null_Violation
          else if \<not> course_check new then Inl Check_Violation
          else if \<not> (unique_ok row_id new (pre @ post) \<and> unique_ok co_course_code new (pre @ post)) then Inl Unique_Violation
          else if \<not> (key_change_ok k (map row_id (pre @ new # post)) (map tt_course_id (timetable st)))
            then Inl Foreign_Key_Violation
          else Inr (st\<lparr>courses := pre @ new # post\<rparr>))"

definition delete_course :: "ctx \<Rightarrow> uuid \<Rightarrow> db \<Rightarrow> error + db" where
  "delete_course cx k st =
     (case find_row k (courses st) of
        None \<Rightarrow> Inr st
      | Some (pre, old, post) \<Rightarrow>
          if \<not> rls_old_row courses_policies For_Delete cx st old then Inr st
          else Inr (st\<lparr>courses := pre @ post,
                      timetable := filter (\<lambda>t. tt_course_id t \<noteq> Some k) (timetable st)\<rparr>))"

definition insert_timetable :: "ctx \<Rightarrow> timetable_cols \<Rightarrow> db \<Rightarrow> error + db" where
  "insert_timetable cx s st =
     (let new = timetable_assign (timetable_defaults cx) s in
      if \<not> rls_check timetable_policies For_Insert cx st new then Inl Rls_Violation
      else if \<not> timetable_not_null new then Inl Not_Null_Violation
      else if \<not> timetable_check new then Inl Check_Violation
      else if \<not> (unique_ok row_id new (timetable st)) then Inl Unique_Violation
      else if \<not> (fk_ok (tt_course_id new) (map row_id (courses st)) \<and> fk_ok (tt_faculty_id new) (map row_id (profiles st)) \<and> fk_ok (tt_room_id new) (map row_id (classrooms st))) then Inl Foreign_Key_Violation
      else Inr (st\<lparr>timetable := timetable st @ [new]\<rparr>))"

definition update_timetable :: "ctx \<Rightarrow> uuid \<Rightarrow> timetable_cols \<Rightarrow> db \<Rightarrow> error + db" where
  "update_timetable cx k s st =
     (case find_row k (timetable st) of
        None \<Rightarrow> Inr st
      | Some (pre, old, post) \<Rightarrow>
          if \<not> rls_old_row timetable_policies For_Update cx st old then Inr st
          else let new = update_updated_at_column cx (timetable_assign old s) in
          if \<not> rls_new_row timetable_policies cx st new then Inl Rls_Violation
          else if \<not> timetable_not_null new then Inl Not_Null_Violation
          else if \<not> timetable_check new then Inl Check_Violation
          else if \<not> (unique_ok row_id new (pre @ post)) then Inl Unique_Violation
          else if \<not> (fk_ok (tt_course_id new) (map row_id (courses st))
                    \<and> fk_ok (tt_faculty_id new) (map row_id (profiles st))
                    \<and> fk_ok (tt_room_id new) (map row_id (classrooms st)))
            then Inl Foreign_Key_Violation
          else Inr (st\<lparr>timetable := pre @ new # post\<rparr>))"

definition delete_timetable :: "ctx \<Rightarrow> uuid \<Rightarrow> db \<Rightarrow> error + db" where
  "delete_timetable cx k st =
     (case find_row k (timetable st) of
        None \<Rightarrow> Inr st
      | Some (pre, old, post) \<Rightarrow>
          if \<not> rls_old_row timetable_policies For_Delete cx st old then Inr st
          else Inr (st\<lparr>timetable := pre @ post\<rparr>))"

definition insert_feedback :: "ctx \<Rightarrow> feedback_cols \<Rightarrow> db \<Rightarrow> error + db" where
  "insert_feedback cx s st =
     (let new = feedback_assign (feedback_defaults cx) s in
      if \<not> rls_check feedback_policies For_Insert cx st new then Inl Rls_Violation
      else if \<not> feedback_not_null new then Inl Not_Null_Violation
      else if \<not> feedback_check new then Inl Check_Violation
      else if \<not> (unique_ok row_id new (feedback st)) then Inl Unique_Violation
      else if \<not> (fk_ok (fb_user_id new) (map (\<lambda>u. Some (u_id u)) (users st))) then Inl Foreign_Key_Violation
      else Inr (st\<lparr>feedback := feedback st @ [new]\<rparr>))"

definition update_feedback :: "ctx \<Rightarrow> uuid \<Rightarrow> feedback_cols \<Rightarrow> db \<Rightarrow> error + db" where
  "update_feedback cx k s st =
     (case find_row k (feedback st) of
        None \<Rightarrow> Inr st
      | Some (pre, old, post) \<Rightarrow>
          if \<not> rls_old_row feedback_policies For_Update cx st old then Inr st
          else let new = update_updated_at_column cx (feedback_assign old s) in
          if \<not> rls_new_row feedback_policies cx st new then Inl Rls_Violation
          else if \<not> feedback_not_null new then Inl Not_Null_Violation
          else if \<not> feedback_check new then Inl Check_Violation
          else if \<not> (unique_ok row_id new (pre @ post)) then Inl Unique_Violation
          else if \<not> (fk_ok (fb_user_id new) (map (\<lambda>u. Some (u_id u)) (users st)))
            then Inl Foreign_Key_Violation
          else Inr (st\<lparr>feedback := pre @ new # post\<rparr>))"

definition delete_feedback :: "ctx \<Rightarrow> uuid \<Rightarrow> db \<Rightarrow> error + db" where
  "delete_feedback cx k st =
     (case find_row k (feedback st) of
        None \<Rightarrow> Inr st
      | Some (pre, old, post) \<Rightarrow>
          if \<not> rls_old_row feedback_policies For_Delete cx st old then Inr st
          else Inr (st\<lparr>feedback := pre @ post\<rparr>))"

subsection \<open>Identities\<close>

text \<open>
  \<^verbatim>\<open>handle_new_user\<close> runs AFTER INSERT on \<open>auth.users\<close>, FOR EACH ROW, as SECURITY
  DEFINER: its INSERT into \<open>profiles\<close> runs as the owner of the table, whom the policies
  do not bind. A failure of the trigger aborts the creation of the identity.
\<close>

definition handle_new_user :: "ctx \<Rightarrow> auth_user \<Rightarrow> db \<Rightarrow> error + db" where
  "handle_new_user cx new st =
     insert_profile (cx\<lparr>bypass_rls := True\<rparr>)
       \<lparr>c_id = Omitted, c_created_at = Omitted, c_updated_at = Omitted,
        c_pr_user_id = Supplied (Some (u_id new)),
        c_pr_name = Supplied (coalesce (json_get_text (u_raw_user_meta_data new) ''name'')
                                       (u_email new)),
        c_pr_email = Supplied (u_email new),
        c_pr_role = Supplied (Some Student),
        c_pr_department = Omitted, c_pr_phone = Omitted\<rparr>
       st"

definition insert_user :: "ctx \<Rightarrow> auth_user \<Rightarrow> db \<Rightarrow> error + db" where
  "insert_user cx u st =
     (if u_id u \<in> set (map u_id (users st)) then Inl Unique_Violation
      else handle_new_user cx u (st\<lparr>users := users st @ [u]\<rparr>))"

text \<open>
  Deleting an identity cascades to its profiles and feedback
  (\<^verbatim>\<open>REFERENCES auth.users(id) ON DELETE CASCADE\<close>), and from the profiles to the
  timetable entries that name them as faculty.
\<close>

definition delete_user :: "uuid \<Rightarrow> db \<Rightarrow> error + db" where
  "delete_user k st =
     (let gone = filter (\<lambda>p. pr_user_id p = Some k) (profiles st) in
      Inr (st\<lparr>users := filter (\<lambda>u. u_id u \<noteq> k) (users st),
               profiles := filter (\<lambda>p. pr_user_id p \<noteq> Some k) (profiles st),
               timetable := filter (\<lambda>t. tt_faculty_id t = None
                                        \<or> tt_faculty_id t \<notin> set (map row_id gone))
                              (timetable st),
               feedback := filter (\<lambda>f. fb_user_id f \<noteq> Some k) (feedback st)\<rparr>))"

subsection \<open>Reachable databases\<close>

datatype request =
    Insert_User auth_user | Delete_User uuid
  | Insert_Profile profile_cols | Update_Profile uuid profile_cols | Delete_Profile uuid
  | Insert_Classroom classroom_cols | Update_Classroom uuid classroom_cols
  | Delete_Classroom uuid
  | Insert_Course course_cols | Update_Course uuid course_cols | Delete_Course uuid
  | Insert_Timetable timetable_cols | Update_Timetable uuid timetable_cols
  | Delete_Timetable uuid
  | Insert_Feedback feedback_cols | Update_Feedback uuid feedback_cols
  | Delete_Feedback uuid

fun exec :: "ctx \<Rightarrow> request \<Rightarrow> db \<Rightarrow> error + db" where
  "exec cx (Insert_User u) st = insert_user cx u st"
| "exec cx (Delete_User k) st = delete_user k st"
| "exec cx (Insert_Profile s) st = insert_profile cx s st"
| "exec cx (Update_Profile k s) st = update_profile cx k s st"
| "exec cx (Delete_Profile k) st = delete_profile cx k st"
| "exec cx (Insert_Classroom s) st = insert_classroom cx s st"
| "exec cx (Update_Classroom k s) st = update_classroom cx k s st"
| "exec cx (Delete_Classroom k) st = delete_classroom cx k st"
| "exec cx (Insert_Course s) st = insert_course cx s st"
| "exec cx (Update_Course k s) st = update_course cx k s st"
| "exec cx (Delete_Course k) st = delete_course cx k st"
| "exec cx (Insert_Timetable s) st = insert_timetable cx s st"
| "exec cx (Update_Timetable k s) st = update_timetable cx k s st"
| "exec cx (Delete_Timetable k) st = delete_timetable cx k st"
| "exec cx (Insert_Feedback s) st = insert_feedback cx s st"
| "exec cx (Update_Feedback k s) st = update_feedback cx k s st"
| "exec cx (Delete_Feedback k) st = delete_feedback cx k st"

text \<open>
  The databases the statements can produce, starting from the empty tables the migration
  creates. The migration's own sample rows are \<open>Insert_Classroom\<close> and \<open>Insert_Course\<close>
  steps.
\<close>

inductive reachable :: "db \<Rightarrow> bool" where
  init: "reachable empty_db"
| step: "reachable st \<Longrightarrow> exec cx rq st = Inr st' \<Longrightarrow> reachable st'"

subsection \<open>Notions of the specification\<close>

text \<open>
  The identity \<open>who\<close> holds a profile with the given role; the requesting identity owns a
  feedback row.
\<close>

definition has_role :: "db \<Rightarrow> uuid option \<Rightarrow> user_role \<Rightarrow> bool" where
  "has_role st who r =
     (who \<noteq> None \<and> (\<exists>p \<in> set (profiles st). pr_user_id p = who \<and> pr_role p = Some r))"

definition owns_feedback :: "ctx \<Rightarrow> feedback_row \<Rightarrow> bool" where
  "owns_feedback cx r = (auth_uid cx \<noteq> None \<and> auth_uid cx = fb_user_id r)"

subsection \<open>Integrity of a database\<close>

text \<open>
  Every stored row satisfies the NOT NULL and CHECK constraints of its table; the columns
  declared UNIQUE or PRIMARY KEY hold no value twice; every timetable entry refers to
  rows that exist.
\<close>

definition rows_valid :: "db \<Rightarrow> bool" where
  "rows_valid st =
     ((\<forall>r \<in> set (profiles st). profile_not_null r)
      \<and> (\<forall>r \<in> set (classrooms st). classroom_not_null r \<and> classroom_check r)
      \<and> (\<forall>r \<in> set (courses st). course_not_null r \<and> course_check r)
      \<and> (\<forall>r \<in> set (timetable st). timetable_not_null r \<and> timetable_check r)
      \<and> (\<forall>r \<in> set (feedback st). feedback_not_null r \<and> feedback_check r))"

definition keys_unique :: "db \<Rightarrow> bool" where
  "keys_unique st =
     (distinct (map pr_user_id (profiles st))
      \<and> distinct (map cr_room_name (classrooms st))
      \<and> distinct (map co_course_code (courses st))
      \<and> distinct (map row_id (profiles st))
      \<and> distinct (map row_id (classrooms st))
      \<and> distinct (map row_id (courses st))
      \<and> distinct (map row_id (timetable st))
      \<and> distinct (map row_id (feedback st)))"

definition timetable_refs_valid :: "db \<Rightarrow> bool" where
  "timetable_refs_valid st =
     (\<forall>t \<in> set (timetable st).
        fk_ok (tt_course_id t) (map row_id (courses st))
        \<and> fk_ok (tt_faculty_id t) (map row_id (profiles st))
        \<and> fk_ok (tt_room_id t) (map row_id (classrooms st)))"

subsection \<open>A sample database\<close>

text \<open>
  Two identities, the first promoted to admin by the service role; one classroom, one
  course, one timetable entry and one feedback row of the second identity. The rows are
  those the statements below it produce, in this order.
\<close>

definition service_ctx :: "timestamptz \<Rightarrow> uuid \<Rightarrow> ctx" where
  "service_ctx t i = \<lparr>auth_uid = None, bypass_rls = True, now = t, gen_random_uuid = i\<rparr>"

definition user_ctx :: "uuid \<Rightarrow> timestamptz \<Rightarrow> uuid \<Rightarrow> ctx" where
  "user_ctx u t i = \<lparr>auth_uid = Some u, bypass_rls = False, now = t, gen_random_uuid = i\<rparr>"

definition no_profile_cols :: profile_cols where
  "no_profile_cols =
     \<lparr>c_id = Omitted, c_created_at = Omitted, c_updated_at = Omitted,
      c_pr_user_id = Omitted, c_pr_name = Omitted, c_pr_email = Omitted, c_pr_role = Omitted,
      c_pr_department = Omitted, c_pr_phone = Omitted\<rparr>"

definition no_classroom_cols :: classroom_cols where
  "no_classroom_cols =
     \<lparr>c_id = Omitted, c_created_at = Omitted, c_updated_at = Omitted,
      c_cr_room_name = Omitted, c_cr_capacity = Omitted, c_cr_equipment = Omitted,
      c_cr_location = Omitted, c_cr_availability_status = Omitted, c_cr_remarks = Omitted\<rparr>"

definition no_course_cols :: course_cols where
  "no_course_cols =
     \<lparr>c_id = Omitted, c_created_at = Omitted, c_updated_at = Omitted,
      c_co_course_code = Omitted, c_co_course_name = Omitted, c_co_department = Omitted,
      c_co_credits = Omitted, c_co_description = Omitted\<rparr>"

definition no_timetable_cols :: timetable_cols where
  "no_timetable_cols =
     \<lparr>c_id = Omitted, c_created_at = Omitted, c_updated_at = Omitted,
      c_tt_course_id = Omitted, c_tt_faculty_id = Omitted, c_tt_room_id = Omitted,
      c_tt_day_of_week = Omitted, c_tt_start_time = Omitted, c_tt_end_time = Omitted,
      c_tt_semester = Omitted, c_tt_academic_year = Omitted\<rparr>"

definition no_feedback_cols :: feedback_cols where
  "no_feedback_cols =
     \<lparr>c_id = Omitted, c_created_at = Omitted, c_updated_at = Omitted,
      c_fb_user_id = Omitted, c_fb_title = Omitted, c_fb_message = Omitted,
      c_fb_status = Omitted\<rparr>"

definition lee :: auth_user where
  "lee = \<lparr>u_id = 1, u_email = Some ''lee@uni.edu'',
          u_raw_user_meta_data = Some [(''name'', Some ''Dr. Lee'')]\<rparr>"

definition sam :: auth_user where
  "sam = \<lparr>u_id = 2, u_email = Some ''sam@uni.edu'', u_raw_user_meta_data = None\<rparr>"

definition room_a101_cols :: classroom_cols where
  "room_a101_cols = no_classroom_cols
     \<lparr>c_cr_room_name := Supplied (Some ''Room A101''), c_cr_capacity := Supplied (Some 50),
      c_cr_equipment := Supplied (Some [''projector'', ''whiteboard'', ''air_conditioning'']),
      c_cr_location := Supplied (Some ''Building A, Floor 1''),
      c_cr_availability_status := Supplied (Some True),
      c_cr_remarks := Supplied (Some ''Standard classroom with modern amenities'')\<rparr>"

definition cs101_cols :: course_cols where
  "cs101_cols = no_course_cols
     \<lparr>c_co_course_code := Supplied (Some ''CS101''),
      c_co_course_name := Supplied (Some ''Introduction to Computer Science''),
      c_co_department := Supplied (Some ''Computer Science''),
      c_co_credits := Supplied (Some 3),
      c_co_description :=
        Supplied (Some ''Basic concepts of computer science and programming'')\<rparr>"

definition monday_cols :: timetable_cols where
  "monday_cols = no_timetable_cols
     \<lparr>c_tt_course_id := Supplied (Some 31), c_tt_faculty_id := Supplied (Some 11),
      c_tt_room_id := Supplied (Some 21), c_tt_day_of_week := Supplied (Some ''Monday''),
      c_tt_start_time := Supplied (Some 540), c_tt_end_time := Supplied (Some 600),
      c_tt_semester := Supplied (Some ''Fall''), c_tt_academic_year := Supplied (Some ''2025'')\<rparr>"

definition note_cols :: feedback_cols where
  "note_cols = no_feedback_cols
     \<lparr>c_fb_user_id := Supplied (Some 2), c_fb_title := Supplied (Some ''Projector''),
      c_fb_message := Supplied (Some ''The projector in A101 flickers'')\<rparr>"

definition sample_requests :: "(ctx \<times> request) list" where
  "sample_requests =
     [(service_ctx 100 11, Insert_User lee),
      (service_ctx 101 12, Insert_User sam),
      (service_ctx 102 0, Update_Profile 11 (no_profile_cols\<lparr>c_pr_role := Supplied (Some Admin)\<rparr>)),
      (user_ctx 1 103 21, Insert_Classroom room_a101_cols),
      (user_ctx 1 104 31, Insert_Course cs101_cols),
      (user_ctx 1 105 41, Insert_Timetable monday_cols),
      (user_ctx 2 106 51, Insert_Feedback note_cols)]"

definition sample_db :: db where
  "sample_db =
     \<lparr>users = [lee, sam],
      profiles =
        [\<lparr>row_id = Some 11, created_at = Some 100, updated_at = Some 102,
          pr_user_id = Some 1, pr_name = Some ''Dr. Lee'', pr_email = Some ''lee@uni.edu'',
          pr_role = Some Admin, pr_department = None, pr_phone = None\<rparr>,
         \<lparr>row_id = Some 12, created_at = Some 101, updated_at = Some 101,
          pr_user_id = Some 2, pr_name = Some ''sam@uni.edu'', pr_email = Some ''sam@uni.edu'',
          pr_role = Some Student, pr_department = None, pr_phone = None\<rparr>],
      classrooms =
        [\<lparr>row_id = Some 21, created_at = Some 103, updated_at = Some 103,
          cr_room_name = Some ''Room A101'', cr_capacity = Some 50,
          cr_equipment = Some [''projector'', ''whiteboard'', ''air_conditioning''],
          cr_location = Some ''Building A, Floor 1'', cr_availability_status = Some True,
          cr_remarks = Some ''Standard classroom with modern amenities''\<rparr>],
      courses =
        [\<lparr>row_id = Some 31, created_at = Some 104, updated_at = Some 104,
          co_course_code = Some ''CS101'',
          co_course_name = Some ''Introduction to Computer Science'',
          co_department = Some ''Computer Science'', co_credits = Some 3,
          co_description = Some ''Basic concepts of computer science and programming''\<rparr>],
      timetable =
        [\<lparr>row_id = Some 41, created_at = Some 105, updated_at = Some 105,
          tt_course_id = Some 31, tt_faculty_id = Some 11, tt_room_id = Some 21,
          tt_day_of_week = Some ''Monday'', tt_start_time = Some 540, tt_end_time = Some 600,
          tt_semester = Some ''Fall'', tt_academic_year = Some ''2025''\<rparr>],
      feedback =
        [\<lparr>row_id = Some 51, created_at = Some 106, updated_at = Some 106,
          fb_user_id = Some 2, fb_title = Some ''Projector'',
          fb_message = Some ''The projector in A101 flickers'',
          fb_status = Some ''pending''\<rparr>]\<rparr>"

text \<open>
  A classroom inserted with an explicit \<open>updated_at\<close> that lies after the time of a
  later UPDATE, and a course inserted with an explicit NULL for \<open>credits\<close>.
\<close>

definition future_room_cols :: classroom_cols where
  "future_room_cols = room_a101_cols\<lparr>c_updated_at := Supplied (Some 5000)\<rparr>"

definition future_room :: classroom where
  "future_room =
     \<lparr>row_id = Some 21, created_at = Some 100, updated_at = Some 5000,
      cr_room_name = Some ''Room A101'', cr_capacity = Some 50,
      cr_equipment = Some [''projector'', ''whiteboard'', ''air_conditioning''],
      cr_location = Some ''Building A, Floor 1'', cr_availability_status = Some True,
      cr_remarks = Some ''Standard classroom with modern amenities''\<rparr>"

definition future_room_db :: db where
  "future_room_db = empty_db\<lparr>classrooms := [future_room]\<rparr>"

definition refreshed_room_db :: db where
  "refreshed_room_db =
     empty_db\<lparr>classrooms := [future_room\<lparr>updated_at := Some 200, cr_capacity := Some 60\<rparr>]\<rparr>"

definition null_credits_cols :: course_cols where
  "null_credits_cols = cs101_cols\<lparr>c_co_credits := Supplied None\<rparr>"

definition null_credits_db :: db where
  "null_credits_db =
     empty_db\<lparr>courses :=
       [\<lparr>row_id = Some 31, created_at = Some 100, updated_at = Some 100,
         co_course_code = Some ''CS101'',
         co_course_name = Some ''Introduction to Computer Science'',
         co_department = Some ''Computer Science'', co_credits = None,
         co_description = Some ''Basic concepts of computer science and programming''\<rparr>]\<rparr>"

text \<open>
  The sample rows the migration inserts, as column lists: five classrooms and five
  courses. \<open>id\<close>, \<open>created_at\<close> and \<open>updated_at\<close> are omitted and take their defaults.
\<close>

definition seed_classrooms :: "classroom_cols list" where
  "seed_classrooms =
     [room_a101_cols,
      no_classroom_cols
        \<lparr>c_cr_room_name := Supplied (Some ''Room B201''), c_cr_capacity := Supplied (Some 30),
         c_cr_equipment := Supplied (Some [''smart_board'', ''audio_system'', ''projector'']),
         c_cr_location := Supplied (Some ''Building B, Floor 2''),
         c_cr_availability_status := Supplied (Some True),
         c_cr_remarks := Supplied (Some ''Small seminar room'')\<rparr>,
      no_classroom_cols
        \<lparr>c_cr_room_name := Supplied (Some ''Lab C301''), c_cr_capacity := Supplied (Some 25),
         c_cr_equipment := Supplied (Some [''computers'', ''projector'', ''air_conditioning'']),
         c_cr_location := Supplied (Some ''Building C, Floor 3''),
         c_cr_availability_status := Supplied (Some True),
         c_cr_remarks := Supplied (Some ''Computer lab'')\<rparr>,
      no_classroom_cols
        \<lparr>c_cr_room_name := Supplied (Some ''Auditorium D001''),
         c_cr_capacity := Supplied (Some 200),
         c_cr_equipment :=
           Supplied (Some [''sound_system'', ''projector'', ''stage'', ''microphones'']),
         c_cr_location := Supplied (Some ''Building D, Ground Floor''),
         c_cr_availability_status := Supplied (Some True),
         c_cr_remarks := Supplied (Some ''Large auditorium for events'')\<rparr>,
      no_classroom_cols
        \<lparr>c_cr_room_name := Supplied (Some ''Room A102''), c_cr_capacity := Supplied (Some 40),
         c_cr_equipment := Supplied (Some [''projector'', ''whiteboard'']),
         c_cr_location := Supplied (Some ''Building A, Floor 1''),
         c_cr_availability_status := Supplied (Some False),
         c_cr_remarks := Supplied (Some ''Under maintenance'')\<rparr>]"

definition seed_courses :: "course_cols list" where
  "seed_courses =
     [cs101_cols,
      no_course_cols
        \<lparr>c_co_course_code := Supplied (Some ''MATH201''),
         c_co_course_name := Supplied (Some ''Calculus II''),
         c_co_department := Supplied (Some ''Mathematics''),
         c_co_credits := Supplied (Some 4),
         c_co_description := Supplied (Some ''Advanced calculus concepts and applications'')\<rparr>,
      no_course_cols
        \<lparr>c_co_course_code := Supplied (Some ''ENG101''),
         c_co_course_name := Supplied (Some ''English Composition''),
         c_co_department := Supplied (Some ''English''),
         c_co_credits := Supplied (Some 3),
         c_co_description := Supplied (Some ''Academic writing and communication skills'')\<rparr>,
      no_course_cols
        \<lparr>c_co_course_code := Supplied (Some ''PHYS201''),
         c_co_course_name := Supplied (Some ''Physics II''),
         c_co_department := Supplied (Some ''Physics''),
         c_co_credits := Supplied (Some 4),
         c_co_description := Supplied (Some ''Electricity, magnetism, and waves'')\<rparr>,
      no_course_cols
        \<lparr>c_co_course_code := Supplied (Some ''BIO101''),
         c_co_course_name := Supplied (Some ''General Biology''),
         c_co_department := Supplied (Some ''Biology''),
         c_co_credits := Supplied (Some 3),
         c_co_description := Supplied (Some ''Introduction to biological concepts'')\<rparr>]"

text \<open>
  The migration runs as the owner of the tables, at time \<open>t\<close>; \<open>ids\<close> are the values
  \<open>gen_random_uuid()\<close> returns for the rows, one after the other.
\<close>

definition migration_seed :: "timestamptz \<Rightarrow> uuid list \<Rightarrow> (ctx \<times> request) list" where
  "migration_seed t ids =
     map (\<lambda>(i, rq). (service_ctx t i, rq))
       (zip ids (map Insert_Classroom seed_classrooms @ map Insert_Course seed_courses))"

text \<open>Running statements in sequence; the first failure aborts the rest.\<close>

fun exec_all :: "(ctx \<times> request) list \<Rightarrow> db \<Rightarrow> error + db" where
  "exec_all [] st = Inr st"
| "exec_all ((cx, rq) # rest) st =
     (case exec cx rq st of Inl e \<Rightarrow> Inl e | Inr st' \<Rightarrow> exec_all rest st')"

section \<open>Properties\<close>

subsection \<open>Rows found by primary key\<close>

lemma find_row_SomeD:
  "find_row k rows = Some (pre, old, post) \<Longrightarrow>
     rows = pre @ old # post \<and> row_id old = Some k \<and> (\<forall>r\<in>set pre. row_id r \<noteq> Some k)"
  by (auto simp: find_row_def extract_Some_iff)

lemma find_row_None_iff:
  "find_row k rows = None \<longleftrightarrow> (\<forall>r\<in>set rows. row_id r \<noteq> Some k)"
  by (auto simp: find_row_def extract_None_iff)

subsection \<open>What the policies evaluate to\<close>

lemma select_profiles_all: "select_profiles cx st = profiles st"
  by (simp add: select_profiles_def rls_using_def policy_using_def profiles_policies_def
      applies_to_def using_expr_def qual_holds_def)

lemma qual_eq_and_eq:
  "qual_holds (sql_and (sql_eq a b) (sql_eq c (Some v))) \<longleftrightarrow>
     (b \<noteq> None \<and> a = b) \<and> c = Some v"
  by (cases a; cases b; cases c) (auto simp: qual_holds_def sql_and_def sql_eq_def)

lemma qual_eq_and_in:
  "qual_holds (sql_and (sql_eq a b) (sql_in c vs)) \<longleftrightarrow>
     (b \<noteq> None \<and> a = b) \<and> (\<exists>v\<in>set vs. c = Some v)"
  by (cases a; cases b; cases c) (auto simp: qual_holds_def sql_and_def sql_eq_def sql_in_def)

lemma exists_admin_profile_eq:
  "exists_admin_profile cx st = Some (has_role st (auth_uid cx) Admin)"
  unfolding exists_admin_profile_def sql_exists_def qual_eq_and_eq has_role_def
    select_profiles_all
  by (auto simp: filter_empty_conv)

lemma exists_admin_or_faculty_profile_eq:
  "exists_admin_or_faculty_profile cx st =
     Some (has_role st (auth_uid cx) Admin \<or> has_role st (auth_uid cx) Faculty)"
  unfolding exists_admin_or_faculty_profile_def sql_exists_def qual_eq_and_in has_role_def
    select_profiles_all
  by (auto simp: filter_empty_conv)

lemmas pol_defs = policy_using_def policy_check_def applies_to_def using_expr_def check_expr_def
  qual_holds_def

lemma classrooms_policy_select: "policy_using classrooms_policies For_Select cx st r"
  by (simp add: pol_defs classrooms_policies_def)

lemma classrooms_policy_write:
  "policy_using classrooms_policies For_Insert cx st r = has_role st (auth_uid cx) Admin"
  "policy_using classrooms_policies For_Update cx st r = has_role st (auth_uid cx) Admin"
  "policy_using classrooms_policies For_Delete cx st r = has_role st (auth_uid cx) Admin"
  "policy_check classrooms_policies For_Insert cx st r = has_role st (auth_uid cx) Admin"
  "policy_check classrooms_policies For_Update cx st r = has_role st (auth_uid cx) Admin"
  "policy_check classrooms_policies For_Delete cx st r = has_role st (auth_uid cx) Admin"
  by (simp_all add: pol_defs classrooms_policies_def exists_admin_profile_eq)

lemma courses_policy_select: "policy_using courses_policies For_Select cx st r"
  by (simp add: pol_defs courses_policies_def)

lemma courses_policy_write:
  "policy_using courses_policies For_Insert cx st r = has_role st (auth_uid cx) Admin"
  "policy_using courses_policies For_Update cx st r = has_role st (auth_uid cx) Admin"
  "policy_using courses_policies For_Delete cx st r = has_role st (auth_uid cx) Admin"
  "policy_check courses_policies For_Insert cx st r = has_role st (auth_uid cx) Admin"
  "policy_check courses_policies For_Update cx st r = has_role st (auth_uid cx) Admin"
  "policy_check courses_policies For_Delete cx st r = has_role st (auth_uid cx) Admin"
  by (simp_all add: pol_defs courses_policies_def exists_admin_profile_eq)

lemma timetable_policy_select: "policy_using timetable_policies For_Select cx st r"
  by (simp add: pol_defs timetable_policies_def)

lemma timetable_policy_write:
  "policy_using timetable_policies For_Insert cx st r =
     (has_role st (auth_uid cx) Admin \<or> has_role st (auth_uid cx) Faculty)"
  "policy_using timetable_policies For_Update cx st r =
     (has_role st (auth_uid cx) Admin \<or> has_role st (auth_uid cx) Faculty)"
  "policy_using timetable_policies For_Delete cx st r =
     (has_role st (auth_uid cx) Admin \<or> has_role st (auth_uid cx) Faculty)"
  "policy_check timetable_policies For_Insert cx st r =
     (has_role st (auth_uid cx) Admin \<or> has_role st (auth_uid cx) Faculty)"
  "policy_check timetable_policies For_Update cx st r =
     (has_role st (auth_uid cx) Admin \<or> has_role st (auth_uid cx) Faculty)"
  "policy_check timetable_policies For_Delete cx st r =
     (has_role st (auth_uid cx) Admin \<or> has_role st (auth_uid cx) Faculty)"
  by (simp_all add: pol_defs timetable_policies_def exists_admin_or_faculty_profile_eq)

lemma sql_eq_holds: "qual_holds (sql_eq a b) \<longleftrightarrow> a \<noteq> None \<and> a = b"
  by (cases a; cases b) (auto simp: qual_holds_def sql_eq_def)

lemma feedback_policy_select:
  "policy_using feedback_policies For_Select cx st r \<longleftrightarrow>
     owns_feedback cx r \<or> has_role st (auth_uid cx) Admin"
  using sql_eq_holds [of "auth_uid cx" "fb_user_id r"]
  by (auto simp: pol_defs feedback_policies_def exists_admin_profile_eq owns_feedback_def)

lemma feedback_policy_no_write:
  "\<not> policy_using feedback_policies For_Update cx st r"
  "\<not> policy_using feedback_policies For_Delete cx st r"
  "\<not> policy_check feedback_policies For_Update cx st r"
  "\<not> policy_check feedback_policies For_Delete cx st r"
  by (simp_all add: pol_defs feedback_policies_def)

lemmas rls_defs = rls_using_def rls_check_def rls_old_row_def rls_new_row_def

subsection \<open>Statements the policies turn away\<close>

lemma classroom_writes_denied:
  assumes "\<not> bypass_rls cx" and "\<not> has_role st (auth_uid cx) Admin"
  shows "insert_classroom cx s st = Inl Rls_Violation"
    and "update_classroom cx k s st = Inr st"
    and "delete_classroom cx k st = Inr st"
  using assms
  by (simp_all add: insert_classroom_def update_classroom_def delete_classroom_def
      rls_defs classrooms_policy_write split: option.split)

lemma course_writes_denied:
  assumes "\<not> bypass_rls cx" and "\<not> has_role st (auth_uid cx) Admin"
  shows "insert_course cx s st = Inl Rls_Violation"
    and "update_course cx k s st = Inr st"
    and "delete_course cx k st = Inr st"
  using assms
  by (simp_all add: insert_course_def update_course_def delete_course_def
      rls_defs courses_policy_write split: option.split)

lemma timetable_writes_denied:
  assumes "\<not> bypass_rls cx" and "\<not> has_role st (auth_uid cx) Admin"
    and "\<not> has_role st (auth_uid cx) Faculty"
  shows "insert_timetable cx s st = Inl Rls_Violation"
    and "update_timetable cx k s st = Inr st"
    and "delete_timetable cx k st = Inr st"
  using assms
  by (simp_all add: insert_timetable_def update_timetable_def delete_timetable_def
      rls_defs timetable_policy_write split: option.split)

lemma feedback_writes_denied:
  assumes "\<not> bypass_rls cx"
  shows "update_feedback cx k s st = Inr st"
    and "delete_feedback cx k st = Inr st"
  using assms
  by (simp_all add: update_feedback_def delete_feedback_def
      rls_defs feedback_policy_no_write split: option.split)

lemma selects_open:
  "select_classrooms cx st = classrooms st"
  "select_courses cx st = courses st"
  "select_timetable cx st = timetable st"
  by (simp_all add: select_classrooms_def select_courses_def select_timetable_def rls_using_def
      classrooms_policy_select courses_policy_select timetable_policy_select)


lemmas sample_defs = sample_db_def service_ctx_def user_ctx_def lee_def sam_def
  no_profile_cols_def no_classroom_cols_def no_course_cols_def no_timetable_cols_def
  no_feedback_cols_def room_a101_cols_def cs101_cols_def monday_cols_def note_cols_def

subsection \<open>Who reads feedback\<close>

text \<open>
  C6. The SELECT policies of \<open>feedback\<close> accept a row for a request exactly when the
  requesting identity owns the row or holds a profile with role admin. A request bound by
  the policies therefore reads the rows it owns, or all rows when it is an admin's, and
  no others.
\<close>

theorem feedback_select_owner_or_admin:
  "(policy_using feedback_policies For_Select cx st r
      \<longleftrightarrow> owns_feedback cx r \<or> has_role st (auth_uid cx) Admin)
   \<and> (\<not> bypass_rls cx \<longrightarrow>
        select_feedback cx st =
          filter (\<lambda>r. owns_feedback cx r \<or> has_role st (auth_uid cx) Admin) (feedback st))"
proof -
  have "rls_using feedback_policies For_Select cx st x
          = (owns_feedback cx x \<or> has_role st (auth_uid cx) Admin)"
    if "\<not> bypass_rls cx" for x
    using that by (simp add: rls_using_def feedback_policy_select)
  then show ?thesis
    by (simp add: feedback_policy_select select_feedback_def cong: filter_cong)
qed

theorem feedback_select_owner_or_admin_witness:
  "\<not> bypass_rls (user_ctx 2 200 0)
   \<and> select_feedback (user_ctx 2 200 0) sample_db = feedback sample_db
   \<and> policy_using feedback_policies For_Select (user_ctx 1 200 0) sample_db
        (hd (feedback sample_db))
   \<and> \<not> policy_using feedback_policies For_Select (user_ctx 3 200 0) sample_db
        (hd (feedback sample_db))"
  using feedback_select_owner_or_admin [of "user_ctx 2 200 0" sample_db "hd (feedback sample_db)"]
    feedback_select_owner_or_admin [of "user_ctx 1 200 0" sample_db "hd (feedback sample_db)"]
    feedback_select_owner_or_admin [of "user_ctx 3 200 0" sample_db "hd (feedback sample_db)"]
  by (simp add: owns_feedback_def has_role_def sample_defs)

subsection \<open>Who writes classrooms, courses and the timetable\<close>

text \<open>
  C3. A request bound by the policies whose identity holds no admin profile is denied
  every INSERT, UPDATE and DELETE on \<open>classrooms\<close> and \<open>courses\<close>: the policy
  expressions are false, the INSERT fails and the UPDATE and DELETE touch no row. When
  the identity holds no faculty profile either, the same goes for \<open>timetable\<close>. The
  SELECT policies of the three tables accept every row, so the same request reads all
  of them.
\<close>

theorem non_staff_writes_denied:
  assumes "\<not> bypass_rls cx" and "\<not> has_role st (auth_uid cx) Admin"
  shows "(\<forall>c \<in> {For_Insert, For_Update, For_Delete}.
            \<not> policy_using classrooms_policies c cx st ra
            \<and> \<not> policy_check classrooms_policies c cx st ra
            \<and> \<not> policy_using courses_policies c cx st rb
            \<and> \<not> policy_check courses_policies c cx st rb)
         \<and> insert_classroom cx sa st = Inl Rls_Violation
         \<and> update_classroom cx k sa st = Inr st
         \<and> delete_classroom cx k st = Inr st
         \<and> insert_course cx sb st = Inl Rls_Violation
         \<and> update_course cx k sb st = Inr st
         \<and> delete_course cx k st = Inr st
         \<and> (\<not> has_role st (auth_uid cx) Faculty \<longrightarrow>
              (\<forall>c \<in> {For_Insert, For_Update, For_Delete}.
                 \<not> policy_using timetable_policies c cx st rc
                 \<and> \<not> policy_check timetable_policies c cx st rc)
              \<and> insert_timetable cx sc st = Inl Rls_Violation
              \<and> update_timetable cx k sc st = Inr st
              \<and> delete_timetable cx k st = Inr st)
         \<and> policy_using classrooms_policies For_Select cx st ra
         \<and> policy_using courses_policies For_Select cx st rb
         \<and> policy_using timetable_policies For_Select cx st rc
         \<and> select_classrooms cx st = classrooms st
         \<and> select_courses cx st = courses st
         \<and> select_timetable cx st = timetable st"
proof -
  have pol: "\<forall>c \<in> {For_Insert, For_Update, For_Delete}.
            \<not> policy_using classrooms_policies c cx st ra
            \<and> \<not> policy_check classrooms_policies c cx st ra
            \<and> \<not> policy_using courses_policies c cx st rb
            \<and> \<not> policy_check courses_policies c cx st rb"
    using assms(2) by (simp add: classrooms_policy_write courses_policy_write)
  have tt: "\<forall>c \<in> {For_Insert, For_Update, For_Delete}.
                 \<not> policy_using timetable_policies c cx st rc
                 \<and> \<not> policy_check timetable_policies c cx st rc"
    if "\<not> has_role st (auth_uid cx) Faculty"
    using assms(2) that by (simp add: timetable_policy_write)
  show ?thesis
    using pol tt classroom_writes_denied [OF assms] course_writes_denied [OF assms]
      timetable_writes_denied [OF assms] selects_open [of cx st]
      classrooms_policy_select [of cx st ra] courses_policy_select [of cx st rb]
      timetable_policy_select [of cx st rc]
    by blast
qed

theorem non_staff_writes_denied_witness:
  "\<not> bypass_rls (user_ctx 2 200 22)
   \<and> \<not> has_role sample_db (auth_uid (user_ctx 2 200 22)) Admin
   \<and> \<not> has_role sample_db (auth_uid (user_ctx 2 200 22)) Faculty
   \<and> update_classroom (user_ctx 2 200 22) 21
        (no_classroom_cols\<lparr>c_cr_capacity := Supplied (Some 60)\<rparr>) sample_db = Inr sample_db
   \<and> insert_timetable (user_ctx 2 200 22) monday_cols sample_db = Inl Rls_Violation
   \<and> select_classrooms (user_ctx 2 200 22) sample_db = classrooms sample_db"
proof -
  have a: "\<not> bypass_rls (user_ctx 2 200 22)"
    by (simp add: user_ctx_def)
  have b: "\<not> has_role sample_db (auth_uid (user_ctx 2 200 22)) Admin"
    by (simp add: has_role_def sample_defs)
  have c: "\<not> has_role sample_db (auth_uid (user_ctx 2 200 22)) Faculty"
    by (simp add: has_role_def sample_defs)
  show ?thesis
    using a b c non_staff_writes_denied [OF a b, where k = 21
        and sa = "no_classroom_cols\<lparr>c_cr_capacity := Supplied (Some 60)\<rparr>"
        and sc = monday_cols]
    by blast
qed

subsection \<open>Updating feedback\<close>

text \<open>
  C1, as the migration has it. No policy of \<open>feedback\<close> applies to UPDATE or DELETE, so
  for a request bound by the policies, the owner's included, no row passes: the UPDATE
  or DELETE touches no row and the database stays as it was.
\<close>

theorem feedback_update_not_permitted:
  assumes "\<not> bypass_rls cx"
  shows "filter (\<lambda>p. applies_to For_Update p \<or> applies_to For_Delete p) feedback_policies = []
         \<and> \<not> policy_using feedback_policies For_Update cx st r
         \<and> \<not> policy_check feedback_policies For_Update cx st r
         \<and> \<not> policy_using feedback_policies For_Delete cx st r
         \<and> update_feedback cx k s st = Inr st
         \<and> delete_feedback cx k st = Inr st"
  using feedback_writes_denied [OF assms]
  by (simp add: feedback_policy_no_write) (simp add: feedback_policies_def applies_to_def)

theorem feedback_update_not_permitted_witness:
  "\<not> bypass_rls (user_ctx 2 200 0)
   \<and> delete_feedback (user_ctx 2 200 0) 51 sample_db = Inr sample_db"
proof -
  have a: "\<not> bypass_rls (user_ctx 2 200 0)"
    by (simp add: user_ctx_def)
  show ?thesis
    using a feedback_update_not_permitted [OF a] by blast
qed

text \<open>
  The owner of the sample feedback row sets its message: the policies do not accept the
  row for UPDATE, and the message is what it was.
\<close>

theorem feedback_owner_update_counterexample:
  "owns_feedback (user_ctx 2 200 0) (hd (feedback sample_db))
   \<and> row_id (hd (feedback sample_db)) = Some 51
   \<and> \<not> policy_using feedback_policies For_Update (user_ctx 2 200 0) sample_db
         (hd (feedback sample_db))
   \<and> update_feedback (user_ctx 2 200 0) 51
        (no_feedback_cols\<lparr>c_fb_message := Supplied (Some ''Fixed, thanks'')\<rparr>) sample_db
      = Inr sample_db
   \<and> map fb_message (feedback sample_db) = [Some ''The projector in A101 flickers'']"
proof -
  have "\<not> bypass_rls (user_ctx 2 200 0)"
    by (simp add: user_ctx_def)
  then have "update_feedback (user_ctx 2 200 0) 51
        (no_feedback_cols\<lparr>c_fb_message := Supplied (Some ''Fixed, thanks'')\<rparr>) sample_db
      = Inr sample_db"
    by (rule feedback_writes_denied)
  then show ?thesis
    by (simp add: feedback_policy_no_write owns_feedback_def sample_defs)
qed

subsection \<open>What a statement that succeeds has done\<close>

lemma insert_profile_Inr:
  assumes "insert_profile cx s st = Inr st'"
  shows "\<exists>new. new = profile_assign (profile_defaults cx) s
           \<and> st' = st\<lparr>profiles := profiles st @ [new]\<rparr>
           \<and> rls_check profiles_policies For_Insert cx st new
           \<and> profile_not_null new
           \<and> unique_ok row_id new (profiles st)
           \<and> unique_ok pr_user_id new (profiles st)
           \<and> fk_ok (pr_user_id new) (map (\<lambda>u. Some (u_id u)) (users st))"
  using assms unfolding insert_profile_def Let_def
  by (simp split: if_splits)

lemma update_profile_Inr:
  assumes "update_profile cx k s st = Inr st'"
  shows "st' = st \<or> (\<exists>pre old post new. profiles st = pre @ old # post \<and> row_id old = Some k
           \<and> rls_old_row profiles_policies For_Update cx st old
           \<and> new = update_updated_at_column cx (profile_assign old s)
           \<and> st' = st\<lparr>profiles := pre @ new # post\<rparr>
           \<and> rls_new_row profiles_policies cx st new
           \<and> profile_not_null new
           \<and> unique_ok row_id new (pre @ post)
           \<and> unique_ok pr_user_id new (pre @ post)
           \<and> fk_ok (pr_user_id new) (map (\<lambda>u. Some (u_id u)) (users st))
           \<and> key_change_ok k (map row_id (pre @ new # post)) (map tt_faculty_id (timetable st)))"
proof (cases "find_row k (profiles st)")
  case None
  then show ?thesis using assms by (simp add: update_profile_def)
next
  case (Some a)
  then obtain pre old post where f: "find_row k (profiles st) = Some (pre, old, post)"
    by (cases a) auto
  note d = find_row_SomeD [OF f]
  show ?thesis
    using assms d unfolding update_profile_def f Let_def
    by (simp split: if_splits) blast+
qed

lemma delete_profile_Inr:
  assumes "delete_profile cx k st = Inr st'"
  shows "st' = st \<or> (\<exists>pre old post. profiles st = pre @ old # post \<and> row_id old = Some k
           \<and> rls_old_row profiles_policies For_Delete cx st old
           \<and> st' = st\<lparr>profiles := pre @ post,
                       timetable := filter (\<lambda>t. tt_faculty_id t \<noteq> Some k) (timetable st)\<rparr>)"
proof (cases "find_row k (profiles st)")
  case None
  then show ?thesis using assms by (simp add: delete_profile_def)
next
  case (Some a)
  then obtain pre old post where f: "find_row k (profiles st) = Some (pre, old, post)"
    by (cases a) auto
  note d = find_row_SomeD [OF f]
  show ?thesis
    using assms d unfolding delete_profile_def f
    by (simp split: if_splits) blast+
qed

lemma insert_classroom_Inr:
  assumes "insert_classroom cx s st = Inr st'"
  shows "\<exists>new. new = classroom_assign (classroom_defaults cx) s
           \<and> st' = st\<lparr>classrooms := classrooms st @ [new]\<rparr>
           \<and> rls_check classrooms_policies For_Insert cx st new
           \<and> classroom_not_null new
           \<and> classroom_check new
           \<and> unique_ok row_id new (classrooms st)
           \<and> unique_ok cr_room_name new (classrooms st)"
  using assms unfolding insert_classroom_def Let_def
  by (simp split: if_splits)

lemma update_classroom_Inr:
  assumes "update_classroom cx k s st = Inr st'"
  shows "st' = st \<or> (\<exists>pre old post new. classrooms st = pre @ old # post \<and> row_id old = Some k
           \<and> rls_old_row classrooms_policies For_Update cx st old
           \<and> new = update_updated_at_column cx (classroom_assign old s)
           \<and> st' = st\<lparr>classrooms := pre @ new # post\<rparr>
           \<and> rls_new_row classrooms_policies cx st new
           \<and> classroom_not_null new
           \<and> classroom_check new
           \<and> unique_ok row_id new (pre @ post)
           \<and> unique_ok cr_room_name new (pre @ post)
           \<and> key_change_ok k (map row_id (pre @ new # post)) (map tt_room_id (timetable st)))"
proof (cases "find_row k (classrooms st)")
  case None
  then show ?thesis using assms by (simp add: update_classroom_def)
next
  case (Some a)
  then obtain pre old post where f: "find_row k (classrooms st) = Some (pre, old, post)"
    by (cases a) auto
  note d = find_row_SomeD [OF f]
  show ?thesis
    using assms d unfolding update_classroom_def f Let_def
    by (simp split: if_splits) blast+
qed

lemma delete_classroom_Inr:
  assumes "delete_classroom cx k st = Inr st'"
  shows "st' = st \<or> (\<exists>pre old post. classrooms st = pre @ old # post \<and> row_id old = Some k
           \<and> rls_old_row classrooms_policies For_Delete cx st old
           \<and> st' = st\<lparr>classrooms := pre @ post,
                       timetable := filter (\<lambda>t. tt_room_id t \<noteq> Some k) (timetable st)\<rparr>)"
proof (cases "find_row k (classrooms st)")
  case None
  then show ?thesis using assms by (simp add: delete_classroom_def)
next
  case (Some a)
  then obtain pre old post where f: "find_row k (classrooms st) = Some (pre, old, post)"
    by (cases a) auto
  note d = find_row_SomeD [OF f]
  show ?thesis
    using assms d unfolding delete_classroom_def f
    by (simp split: if_splits) blast+
qed

lemma insert_course_Inr:
  assumes "insert_course cx s st = Inr st'"
  shows "\<exists>new. new = course_assign (course_defaults cx) s
           \<and> st' = st\<lparr>courses := courses st @ [new]\<rparr>
           \<and> rls_check courses_policies For_Insert cx st new
           \<and> course_not_null new
           \<and> course_check new
           \<and> unique_ok row_id new (courses st)
           \<and> unique_ok co_course_code new (courses st)"
  using assms unfolding insert_course_def Let_def
  by (simp split: if_splits)

lemma update_course_Inr:
  assumes "update_course cx k s st = Inr st'"
  shows "st' = st \<or> (\<exists>pre old post new. courses st = pre @ old # post \<and> row_id old = Some k
           \<and> rls_old_row courses_policies For_Update cx st old
           \<and> new = update_updated_at_column cx (course_assign old s)
           \<and> st' = st\<lparr>courses := pre @ new # post\<rparr>
           \<and> rls_new_row courses_policies cx st new
           \<and> course_not_null new
           \<and> course_check new
           \<and> unique_ok row_id new (pre @ post)
           \<and> unique_ok co_course_code new (pre @ post)
           \<and> key_change_ok k (map row_id (pre @ new # post)) (map tt_course_id (timetable st)))"
proof (cases "find_row k (courses st)")
  case None
  then show ?thesis using assms by (simp add: update_course_def)
next
  case (Some a)
  then obtain pre old post where f: "find_row k (courses st) = Some (pre, old, post)"
    by (cases a) auto
  note d = find_row_SomeD [OF f]
  show ?thesis
    using assms d unfolding update_course_def f Let_def
    by (simp split: if_splits) blast+
qed

lemma delete_course_Inr:
  assumes "delete_course cx k st = Inr st'"
  shows "st' = st \<or> (\<exists>pre old post. courses st = pre @ old # post \<and> row_id old = Some k
           \<and> rls_old_row courses_policies For_Delete cx st old
           \<and> st' = st\<lparr>courses := pre @ post,
                       timetable := filter (\<lambda>t. tt_course_id t \<noteq> Some k) (timetable st)\<rparr>)"
proof (cases "find_row k (courses st)")
  case None
  then show ?thesis using assms by (simp add: delete_course_def)
next
  case (Some a)
  then obtain pre old post where f: "find_row k (courses st) = Some (pre, old, post)"
    by (cases a) auto
  note d = find_row_SomeD [OF f]
  show ?thesis
    using assms d unfolding delete_course_def f
    by (simp split: if_splits) blast+
qed

lemma insert_timetable_Inr:
  assumes "insert_timetable cx s st = Inr st'"
  shows "\<exists>new. new = timetable_assign (timetable_defaults cx) s
           \<and> st' = st\<lparr>timetable := timetable st @ [new]\<rparr>
           \<and> rls_check timetable_policies For_Insert cx st new
           \<and> timetable_not_null new
           \<and> timetable_check new
           \<and> unique_ok row_id new (timetable st)
           \<and> fk_ok (tt_course_id new) (map row_id (courses st))
           \<and> fk_ok (tt_faculty_id new) (map row_id (profiles st))
           \<and> fk_ok (tt_room_id new) (map row_id (classrooms st))"
  using assms unfolding insert_timetable_def Let_def
  by (simp split: if_splits)

lemma update_timetable_Inr:
  assumes "update_timetable cx k s st = Inr st'"
  shows "st' = st \<or> (\<exists>pre old post new. timetable st = pre @ old # post \<and> row_id old = Some k
           \<and> rls_old_row timetable_policies For_Update cx st old
           \<and> new = update_updated_at_column cx (timetable_assign old s)
           \<and> st' = st\<lparr>timetable := pre @ new # post\<rparr>
           \<and> rls_new_row timetable_policies cx st new
           \<and> timetable_not_null new
           \<and> timetable_check new
           \<and> unique_ok row_id new (pre @ post)
           \<and> fk_ok (tt_course_id new) (map row_id (courses st))
           \<and> fk_ok (tt_faculty_id new) (map row_id (profiles st))
           \<and> fk_ok (tt_room_id new) (map row_id (classrooms st)))"
proof (cases "find_row k (timetable st)")
  case None
  then show ?thesis using assms by (simp add: update_timetable_def)
next
  case (Some a)
  then obtain pre old post where f: "find_row k (timetable st) = Some (pre, old, post)"
    by (cases a) auto
  note d = find_row_SomeD [OF f]
  show ?thesis
    using assms d unfolding update_timetable_def f Let_def
    by (simp split: if_splits) blast+
qed

lemma delete_timetable_Inr:
  assumes "delete_timetable cx k st = Inr st'"
  shows "st' = st \<or> (\<exists>pre old post. timetable st = pre @ old # post \<and> row_id old = Some k
           \<and> rls_old_row timetable_policies For_Delete cx st old
           \<and> st' = st\<lparr>timetable := pre @ post\<rparr>)"
proof (cases "find_row k (timetable st)")
  case None
  then show ?thesis using assms by (simp add: delete_timetable_def)
next
  case (Some a)
  then obtain pre old post where f: "find_row k (timetable st) = Some (pre, old, post)"
    by (cases a) auto
  note d = find_row_SomeD [OF f]
  show ?thesis
    using assms d unfolding delete_timetable_def f
    by (simp split: if_splits) blast+
qed

lemma insert_feedback_Inr:
  assumes "insert_feedback cx s st = Inr st'"
  shows "\<exists>new. new = feedback_assign (feedback_defaults cx) s
           \<and> st' = st\<lparr>feedback := feedback st @ [new]\<rparr>
           \<and> rls_check feedback_policies For_Insert cx st new
           \<and> feedback_not_null new
           \<and> feedback_check new
           \<and> unique_ok row_id new (feedback st)
           \<and> fk_ok (fb_user_id new) (map (\<lambda>u. Some (u_id u)) (users st))"
  using assms unfolding insert_feedback_def Let_def
  by (simp split: if_splits)

lemma update_feedback_Inr:
  assumes "update_feedback cx k s st = Inr st'"
  shows "st' = st \<or> (\<exists>pre old post new. feedback st = pre @ old # post \<and> row_id old = Some k
           \<and> rls_old_row feedback_policies For_Update cx st old
           \<and> new = update_updated_at_column cx (feedback_assign old s)
           \<and> st' = st\<lparr>feedback := pre @ new # post\<rparr>
           \<and> rls_new_row feedback_policies cx st new
           \<and> feedback_not_null new
           \<and> feedback_check new
           \<and> unique_ok row_id new (pre @ post)
           \<and> fk_ok (fb_user_id new) (map (\<lambda>u. Some (u_id u)) (users st)))"
proof (cases "find_row k (feedback st)")
  case None
  then show ?thesis using assms by (simp add: update_feedback_def)
next
  case (Some a)
  then obtain pre old post where f: "find_row k (feedback st) = Some (pre, old, post)"
    by (cases a) auto
  note d = find_row_SomeD [OF f]
  show ?thesis
    using assms d unfolding update_feedback_def f Let_def
    by (simp split: if_splits) blast+
qed

lemma delete_feedback_Inr:
  assumes "delete_feedback cx k st = Inr st'"
  shows "st' = st \<or> (\<exists>pre old post. feedback st = pre @ old # post \<and> row_id old = Some k
           \<and> rls_old_row feedback_policies For_Delete cx st old
           \<and> st' = st\<lparr>feedback := pre @ post\<rparr>)"
proof (cases "find_row k (feedback st)")
  case None
  then show ?thesis using assms by (simp add: delete_feedback_def)
next
  case (Some a)
  then obtain pre old post where f: "find_row k (feedback st) = Some (pre, old, post)"
    by (cases a) auto
  note d = find_row_SomeD [OF f]
  show ?thesis
    using assms d unfolding delete_feedback_def f
    by (simp split: if_splits) blast+
qed

lemma insert_user_Inr:
  assumes "insert_user cx u st = Inr st'"
  shows "u_id u \<notin> set (map u_id (users st))
         \<and> (\<exists>new. new = \<lparr>row_id = Some (gen_random_uuid cx), created_at = Some (now cx),
                         updated_at = Some (now cx), pr_user_id = Some (u_id u),
                         pr_name = coalesce (json_get_text (u_raw_user_meta_data u) ''name'')
                                     (u_email u),
                         pr_email = u_email u, pr_role = Some Student,
                         pr_department = None, pr_phone = None\<rparr>
              \<and> st' = st\<lparr>users := users st @ [u], profiles := profiles st @ [new]\<rparr>
              \<and> profile_not_null new
              \<and> unique_ok row_id new (profiles st)
              \<and> unique_ok pr_user_id new (profiles st))"
proof -
  from assms have fresh: "u_id u \<notin> set (map u_id (users st))"
    and h: "handle_new_user cx u (st\<lparr>users := users st @ [u]\<rparr>) = Inr st'"
    by (simp_all add: insert_user_def split: if_splits)
  from insert_profile_Inr [OF h [unfolded handle_new_user_def]] fresh
  show ?thesis
    by (simp add: profile_assign_def profile_defaults_def)
qed

lemma delete_user_Inr:
  assumes "delete_user k st = Inr st'"
  shows "st' = st\<lparr>users := filter (\<lambda>u. u_id u \<noteq> k) (users st),
               profiles := filter (\<lambda>p. pr_user_id p \<noteq> Some k) (profiles st),
               timetable := filter (\<lambda>t. tt_faculty_id t = None
                    \<or> tt_faculty_id t \<notin> set (map row_id (filter (\<lambda>p. pr_user_id p = Some k) (profiles st))))
                              (timetable st),
               feedback := filter (\<lambda>f. fb_user_id f \<noteq> Some k) (feedback st)\<rparr>"
  using assms by (simp add: delete_user_def Let_def)

lemma rows_valid_step:
  assumes "rows_valid st" and "exec cx rq st = Inr st'"
  shows "rows_valid st'"
proof (cases rq)
  case (Insert_User u)
  then show ?thesis using assms insert_user_Inr [of cx u st st']
    by (auto simp: rows_valid_def)
next
  case (Delete_User k)
  then show ?thesis using assms delete_user_Inr [of k st st']
    by (auto simp: rows_valid_def)
next
  case (Insert_Profile s)
  then show ?thesis using assms insert_profile_Inr [of cx s st st']
    by (auto simp: rows_valid_def)
next
  case (Update_Profile k s)
  then show ?thesis using assms update_profile_Inr [of cx k s st st']
    by (auto simp: rows_valid_def)
next
  case (Delete_Profile k)
  then show ?thesis using assms delete_profile_Inr [of cx k st st']
    by (auto simp: rows_valid_def)
next
  case (Insert_Classroom s)
  then show ?thesis using assms insert_classroom_Inr [of cx s st st']
    by (auto simp: rows_valid_def)
next
  case (Update_Classroom k s)
  then show ?thesis using assms update_classroom_Inr [of cx k s st st']
    by (auto simp: rows_valid_def)
next
  case (Delete_Classroom k)
  then show ?thesis using assms delete_classroom_Inr [of cx k st st']
    by (auto simp: rows_valid_def)
next
  case (Insert_Course s)
  then show ?thesis using assms insert_course_Inr [of cx s st st']
    by (auto simp: rows_valid_def)
next
  case (Update_Course k s)
  then show ?thesis using assms update_course_Inr [of cx k s st st']
    by (auto simp: rows_valid_def)
next
  case (Delete_Course k)
  then show ?thesis using assms delete_course_Inr [of cx k st st']
    by (auto simp: rows_valid_def)
next
  case (Insert_Timetable s)
  then show ?thesis using assms insert_timetable_Inr [of cx s st st']
    by (auto simp: rows_valid_def)
next
  case (Update_Timetable k s)
  then show ?thesis using assms update_timetable_Inr [of cx k s st st']
    by (auto simp: rows_valid_def)
next
  case (Delete_Timetable k)
  then show ?thesis using assms delete_timetable_Inr [of cx k st st']
    by (auto simp: rows_valid_def)
next
  case (Insert_Feedback s)
  then show ?thesis using assms insert_feedback_Inr [of cx s st st']
    by (auto simp: rows_valid_def)
next
  case (Update_Feedback k s)
  then show ?thesis using assms update_feedback_Inr [of cx k s st st']
    by (auto simp: rows_valid_def)
next
  case (Delete_Feedback k)
  then show ?thesis using assms delete_feedback_Inr [of cx k st st']
    by (auto simp: rows_valid_def)
qed

lemma rows_valid_reachable: "reachable st \<Longrightarrow> rows_valid st"
proof (induction rule: reachable.induct)
  case init
  show ?case by (simp add: rows_valid_def empty_db_def)
next
  case (step st cx rq st')
  then show ?case by (blast intro: rows_valid_step)
qed

subsection \<open>Unique columns\<close>

lemmas not_null_defs = profile_not_null_def classroom_not_null_def course_not_null_def
  timetable_not_null_def feedback_not_null_def

lemma keys_unique_step:
  assumes "keys_unique st" and "exec cx rq st = Inr st'"
  shows "keys_unique st'"
proof (cases rq)
  case (Insert_User u)
  then show ?thesis using assms insert_user_Inr [of cx u st st']
    by (auto simp: keys_unique_def not_null_defs unique_ok_def distinct_map_filter)
next
  case (Delete_User k)
  then show ?thesis using assms delete_user_Inr [of k st st']
    by (auto simp: keys_unique_def not_null_defs unique_ok_def distinct_map_filter)
next
  case (Insert_Profile s)
  then show ?thesis using assms insert_profile_Inr [of cx s st st']
    by (auto simp: keys_unique_def not_null_defs unique_ok_def distinct_map_filter)
next
  case (Update_Profile k s)
  then show ?thesis using assms update_profile_Inr [of cx k s st st']
    by (auto simp: keys_unique_def not_null_defs unique_ok_def distinct_map_filter)
next
  case (Delete_Profile k)
  then show ?thesis using assms delete_profile_Inr [of cx k st st']
    by (auto simp: keys_unique_def not_null_defs unique_ok_def distinct_map_filter)
next
  case (Insert_Classroom s)
  then show ?thesis using assms insert_classroom_Inr [of cx s st st']
    by (auto simp: keys_unique_def not_null_defs unique_ok_def distinct_map_filter)
next
  case (Update_Classroom k s)
  then show ?thesis using assms update_classroom_Inr [of cx k s st st']
    by (auto simp: keys_unique_def not_null_defs unique_ok_def distinct_map_filter)
next
  case (Delete_Classroom k)
  then show ?thesis using assms delete_classroom_Inr [of cx k st st']
    by (auto simp: keys_unique_def not_null_defs unique_ok_def distinct_map_filter)
next
  case (Insert_Course s)
  then show ?thesis using assms insert_course_Inr [of cx s st st']
    by (auto simp: keys_unique_def not_null_defs unique_ok_def distinct_map_filter)
next
  case (Update_Course k s)
  then show ?thesis using assms update_course_Inr [of cx k s st st']
    by (auto simp: keys_unique_def not_null_defs unique_ok_def distinct_map_filter)
next
  case (Delete_Course k)
  then show ?thesis using assms delete_course_Inr [of cx k st st']
    by (auto simp: keys_unique_def not_null_defs unique_ok_def distinct_map_filter)
next
  case (Insert_Timetable s)
  then show ?thesis using assms insert_timetable_Inr [of cx s st st']
    by (auto simp: keys_unique_def not_null_defs unique_ok_def distinct_map_filter)
next
  case (Update_Timetable k s)
  then show ?thesis using assms update_timetable_Inr [of cx k s st st']
    by (auto simp: keys_unique_def not_null_defs unique_ok_def distinct_map_filter)
next
  case (Delete_Timetable k)
  then show ?thesis using assms delete_timetable_Inr [of cx k st st']
    by (auto simp: keys_unique_def not_null_defs unique_ok_def distinct_map_filter)
next
  case (Insert_Feedback s)
  then show ?thesis using assms insert_feedback_Inr [of cx s st st']
    by (auto simp: keys_unique_def not_null_defs unique_ok_def distinct_map_filter)
next
  case (Update_Feedback k s)
  then show ?thesis using assms update_feedback_Inr [of cx k s st st']
    by (auto simp: keys_unique_def not_null_defs unique_ok_def distinct_map_filter)
next
  case (Delete_Feedback k)
  then show ?thesis using assms delete_feedback_Inr [of cx k st st']
    by (auto simp: keys_unique_def not_null_defs unique_ok_def distinct_map_filter)
qed

lemma keys_unique_reachable: "reachable st \<Longrightarrow> keys_unique st"
proof (induction rule: reachable.induct)
  case init
  show ?case by (simp add: keys_unique_def empty_db_def)
next
  case (step st cx rq st')
  then show ?case by (blast intro: keys_unique_step)
qed

subsection \<open>References of the timetable\<close>

lemma fk_ok_replace:
  assumes "fk_ok v (map row_id (pre @ old # post))" and "row_id old = Some k"
    and "key_change_ok k (map row_id (pre @ new # post)) refs" and "v \<in> set refs"
  shows "fk_ok v (map row_id (pre @ new # post))"
proof (cases "v = Some k")
  case True
  with assms(3,4) show ?thesis by (simp add: key_change_ok_def fk_ok_def)
next
  case False
  with assms(1,2) show ?thesis by (auto simp: fk_ok_def)
qed

lemma update_profile_refs:
  assumes "update_profile cx k s st = Inr st'" and "timetable_refs_valid st"
  shows "timetable_refs_valid st'"
proof -
  from update_profile_Inr [OF assms(1)]
  consider "st' = st"
    | pre old post new where "profiles st = pre @ old # post" "row_id old = Some k"
        "st' = st\<lparr>profiles := pre @ new # post\<rparr>"
        "key_change_ok k (map row_id (pre @ new # post)) (map tt_faculty_id (timetable st))"
    by blast
  then show ?thesis
  proof cases
    case 1
    with assms(2) show ?thesis by simp
  next
    case 2
    have "fk_ok (tt_faculty_id t) (map row_id (pre @ new # post))" if "t \<in> set (timetable st)" for t
    proof (rule fk_ok_replace [OF _ 2(2) 2(4)])
      show "fk_ok (tt_faculty_id t) (map row_id (pre @ old # post))"
        using assms(2) that 2(1) by (simp add: timetable_refs_valid_def)
      show "tt_faculty_id t \<in> set (map tt_faculty_id (timetable st))"
        using that by simp
    qed
    with assms(2) 2(3) show ?thesis
      by (simp add: timetable_refs_valid_def)
  qed
qed

lemma update_classroom_refs:
  assumes "update_classroom cx k s st = Inr st'" and "timetable_refs_valid st"
  shows "timetable_refs_valid st'"
proof -
  from update_classroom_Inr [OF assms(1)]
  consider "st' = st"
    | pre old post new where "classrooms st = pre @ old # post" "row_id old = Some k"
        "st' = st\<lparr>classrooms := pre @ new # post\<rparr>"
        "key_change_ok k (map row_id (pre @ new # post)) (map tt_room_id (timetable st))"
    by blast
  then show ?thesis
  proof cases
    case 1
    with assms(2) show ?thesis by simp
  next
    case 2
    have "fk_ok (tt_room_id t) (map row_id (pre @ new # post))" if "t \<in> set (timetable st)" for t
    proof (rule fk_ok_replace [OF _ 2(2) 2(4)])
      show "fk_ok (tt_room_id t) (map row_id (pre @ old # post))"
        using assms(2) that 2(1) by (simp add: timetable_refs_valid_def)
      show "tt_room_id t \<in> set (map tt_room_id (timetable st))"
        using that by simp
    qed
    with assms(2) 2(3) show ?thesis
      by (simp add: timetable_refs_valid_def)
  qed
qed

lemma update_course_refs:
  assumes "update_course cx k s st = Inr st'" and "timetable_refs_valid st"
  shows "timetable_refs_valid st'"
proof -
  from update_course_Inr [OF assms(1)]
  consider "st' = st"
    | pre old post new where "courses st = pre @ old # post" "row_id old = Some k"
        "st' = st\<lparr>courses := pre @ new # post\<rparr>"
        "key_change_ok k (map row_id (pre @ new # post)) (map tt_course_id (timetable st))"
    by blast
  then show ?thesis
  proof cases
    case 1
    with assms(2) show ?thesis by simp
  next
    case 2
    have "fk_ok (tt_course_id t) (map row_id (pre @ new # post))" if "t \<in> set (timetable st)" for t
    proof (rule fk_ok_replace [OF _ 2(2) 2(4)])
      show "fk_ok (tt_course_id t) (map row_id (pre @ old # post))"
        using assms(2) that 2(1) by (simp add: timetable_refs_valid_def)
      show "tt_course_id t \<in> set (map tt_course_id (timetable st))"
        using that by simp
    qed
    with assms(2) 2(3) show ?thesis
      by (simp add: timetable_refs_valid_def)
  qed
qed

lemma timetable_refs_valid_step:
  assumes "timetable_refs_valid st" and "exec cx rq st = Inr st'"
  shows "timetable_refs_valid st'"
proof (cases rq)
  case (Insert_User u)
  then show ?thesis using assms insert_user_Inr [of cx u st st']
    by (auto simp: timetable_refs_valid_def fk_ok_def)
next
  case (Delete_User k)
  then show ?thesis using assms delete_user_Inr [of k st st']
    by (auto simp: timetable_refs_valid_def fk_ok_def)
next
  case (Insert_Profile s)
  then show ?thesis using assms insert_profile_Inr [of cx s st st']
    by (auto simp: timetable_refs_valid_def fk_ok_def)
next
  case (Update_Profile k s)
  then show ?thesis using assms update_profile_refs [of cx k s st st']
    by simp
next
  case (Delete_Profile k)
  then show ?thesis using assms delete_profile_Inr [of cx k st st']
    by (auto simp: timetable_refs_valid_def fk_ok_def)
next
  case (Insert_Classroom s)
  then show ?thesis using assms insert_classroom_Inr [of cx s st st']
    by (auto simp: timetable_refs_valid_def fk_ok_def)
next
  case (Update_Classroom k s)
  then show ?thesis using assms update_classroom_refs [of cx k s st st']
    by simp
next
  case (Delete_Classroom k)
  then show ?thesis using assms delete_classroom_Inr [of cx k st st']
    by (auto simp: timetable_refs_valid_def fk_ok_def)
next
  case (Insert_Course s)
  then show ?thesis using assms insert_course_Inr [of cx s st st']
    by (auto simp: timetable_refs_valid_def fk_ok_def)
next
  case (Update_Course k s)
  then show ?thesis using assms update_course_refs [of cx k s st st']
    by simp
next
  case (Delete_Course k)
  then show ?thesis using assms delete_course_Inr [of cx k st st']
    by (auto simp: timetable_refs_valid_def fk_ok_def)
next
  case (Insert_Timetable s)
  then show ?thesis using assms insert_timetable_Inr [of cx s st st']
    by (auto simp: timetable_refs_valid_def fk_ok_def)
next
  case (Update_Timetable k s)
  then show ?thesis using assms update_timetable_Inr [of cx k s st st']
    by (auto simp: timetable_refs_valid_def fk_ok_def)
next
  case (Delete_Timetable k)
  then show ?thesis using assms delete_timetable_Inr [of cx k st st']
    by (auto simp: timetable_refs_valid_def fk_ok_def)
next
  case (Insert_Feedback s)
  then show ?thesis using assms insert_feedback_Inr [of cx s st st']
    by (auto simp: timetable_refs_valid_def fk_ok_def)
next
  case (Update_Feedback k s)
  then show ?thesis using assms update_feedback_Inr [of cx k s st st']
    by (auto simp: timetable_refs_valid_def fk_ok_def)
next
  case (Delete_Feedback k)
  then show ?thesis using assms delete_feedback_Inr [of cx k st st']
    by (auto simp: timetable_refs_valid_def fk_ok_def)
qed

lemma timetable_refs_valid_reachable: "reachable st \<Longrightarrow> timetable_refs_valid st"
proof (induction rule: reachable.induct)
  case init
  show ?case by (simp add: timetable_refs_valid_def empty_db_def)
next
  case (step st cx rq st')
  then show ?case by (blast intro: timetable_refs_valid_step)
qed

subsection \<open>The sample database is reachable\<close>

lemma exec_all_reachable:
  "reachable st \<Longrightarrow> exec_all rs st = Inr st' \<Longrightarrow> reachable st'"
proof (induction rs arbitrary: st)
  case Nil
  then show ?case by simp
next
  case (Cons a rs)
  obtain cx rq where a: "a = (cx, rq)" by (cases a)
  from Cons.prems(2) a obtain st1 where s1: "exec cx rq st = Inr st1"
    and rest: "exec_all rs st1 = Inr st'"
    by (auto split: sum.splits)
  from Cons.prems(1) s1 have "reachable st1" by (rule reachable.step)
  then show ?case using rest by (rule Cons.IH)
qed

lemma sample_db_run: "exec_all sample_requests empty_db = Inr sample_db"
  by code_simp

lemma sample_db_reachable: "reachable sample_db"
  using reachable.init sample_db_run by (rule exec_all_reachable)

lemma migration_seed_run:
  "map cr_room_name (classrooms (projr (exec_all (migration_seed 0 [1 ..< 11]) empty_db)))
     = [Some ''Room A101'', Some ''Room B201'', Some ''Lab C301'', Some ''Auditorium D001'',
        Some ''Room A102'']
   \<and> map co_course_code (courses (projr (exec_all (migration_seed 0 [1 ..< 11]) empty_db)))
     = [Some ''CS101'', Some ''MATH201'', Some ''ENG101'', Some ''PHYS201'', Some ''BIO101'']
   \<and> \<not> isl (exec_all (migration_seed 0 [1 ..< 11]) empty_db)"
  by code_simp

lemma migration_seed_reachable:
  "exec_all (migration_seed t ids) empty_db = Inr st \<Longrightarrow> reachable st"
  using reachable.init by (rule exec_all_reachable)

lemma future_room_db_run:
  "exec (service_ctx 100 21) (Insert_Classroom future_room_cols) empty_db = Inr future_room_db"
  by code_simp

lemma refreshed_room_db_run:
  "update_classroom (service_ctx 200 0) 21
     (no_classroom_cols\<lparr>c_cr_capacity := Supplied (Some 60)\<rparr>) future_room_db
   = Inr refreshed_room_db"
  by code_simp

lemma null_credits_db_run:
  "exec (service_ctx 100 31) (Insert_Course null_credits_cols) empty_db = Inr null_credits_db"
  by code_simp

subsection \<open>Start and end of a timetable entry\<close>

lemma valid_time_range_iff:
  "tt_start_time r = Some a \<Longrightarrow> tt_end_time r = Some b \<Longrightarrow> valid_time_range r \<longleftrightarrow> a < b"
  by (simp add: valid_time_range_def check_holds_def sql_gt_def)

lemma insert_timetable_bad_range:
  assumes "tt_start_time (timetable_assign (timetable_defaults cx) s) = Some a"
    and "tt_end_time (timetable_assign (timetable_defaults cx) s) = Some b"
    and "b \<le> a"
  shows "\<exists>e. insert_timetable cx s st = Inl e"
  using assms valid_time_range_iff [OF assms(1,2)]
  by (simp add: insert_timetable_def Let_def timetable_check_def)

lemma update_timetable_bad_range:
  assumes "find_row k (timetable st) = Some (pre, old, post)"
    and "tt_start_time (timetable_assign old s) = Some a"
    and "tt_end_time (timetable_assign old s) = Some b"
    and "b \<le> a"
  shows "(rls_old_row timetable_policies For_Update cx st old
            \<longrightarrow> (\<exists>e. update_timetable cx k s st = Inl e))
         \<and> (\<not> rls_old_row timetable_policies For_Update cx st old
            \<longrightarrow> update_timetable cx k s st = Inr st)"
proof -
  let ?new = "update_updated_at_column cx (timetable_assign old s)"
  have "tt_start_time ?new = Some a" "tt_end_time ?new = Some b"
    using assms(2,3) by (simp_all add: update_updated_at_column_def)
  from valid_time_range_iff [OF this] assms(4) have "\<not> timetable_check ?new"
    by (simp add: timetable_check_def)
  then show ?thesis
    by (auto simp: update_timetable_def assms(1) Let_def)
qed

text \<open>
  C4. In every reachable database each timetable entry has a start and an end time, the
  end after the start. An INSERT whose row would end at or before its start fails. An
  UPDATE that would make a row end at or before its start fails whenever the request
  reaches the row; when the policies keep the request from the row, the UPDATE touches
  nothing and the database stays as it was.
\<close>

theorem timetable_end_after_start:
  assumes "reachable st"
  shows "(\<forall>t \<in> set (timetable st).
            \<exists>a b. tt_start_time t = Some a \<and> tt_end_time t = Some b \<and> a < b)
         \<and> (\<forall>a b. tt_start_time (timetable_assign (timetable_defaults cx) s) = Some a
                \<and> tt_end_time (timetable_assign (timetable_defaults cx) s) = Some b
                \<and> b \<le> a
              \<longrightarrow> (\<exists>e. insert_timetable cx s st = Inl e))
         \<and> (\<forall>pre old post a b. find_row k (timetable st) = Some (pre, old, post)
                \<and> tt_start_time (timetable_assign old s') = Some a
                \<and> tt_end_time (timetable_assign old s') = Some b
                \<and> b \<le> a
              \<longrightarrow> (rls_old_row timetable_policies For_Update cx st old
                     \<longrightarrow> (\<exists>e. update_timetable cx k s' st = Inl e))
                  \<and> (\<not> rls_old_row timetable_policies For_Update cx st old
                     \<longrightarrow> update_timetable cx k s' st = Inr st))"
proof -
  have "\<exists>a b. tt_start_time t = Some a \<and> tt_end_time t = Some b \<and> a < b"
    if "t \<in> set (timetable st)" for t
  proof -
    from rows_valid_reachable [OF assms] that
    have nn: "timetable_not_null t" and ck: "timetable_check t"
      by (simp_all add: rows_valid_def)
    from nn obtain a b where ab: "tt_start_time t = Some a" "tt_end_time t = Some b"
      by (auto simp: timetable_not_null_def)
    with ck valid_time_range_iff [OF ab] show ?thesis
      by (simp add: timetable_check_def)
  qed
  then show ?thesis
    using insert_timetable_bad_range [of cx s _ _ st]
      update_timetable_bad_range [of k st _ _ _ s' _ _ cx]
    by blast
qed

theorem timetable_end_after_start_witness:
  "reachable sample_db
   \<and> map (\<lambda>t. (tt_start_time t, tt_end_time t)) (timetable sample_db) = [(Some 540, Some 600)]
   \<and> insert_timetable (user_ctx 1 200 42)
        (monday_cols\<lparr>c_tt_start_time := Supplied (Some 540),
                      c_tt_end_time := Supplied (Some 480)\<rparr>) sample_db
      = Inl Check_Violation
   \<and> find_row 41 (timetable sample_db) = Some ([], hd (timetable sample_db), [])
   \<and> rls_old_row timetable_policies For_Update (user_ctx 1 200 0) sample_db
        (hd (timetable sample_db))
   \<and> update_timetable (user_ctx 1 200 0) 41
        (no_timetable_cols\<lparr>c_tt_end_time := Supplied (Some 540)\<rparr>) sample_db
      = Inl Check_Violation
   \<and> \<not> rls_old_row timetable_policies For_Update (user_ctx 2 200 0) sample_db
        (hd (timetable sample_db))
   \<and> update_timetable (user_ctx 2 200 0) 41
        (no_timetable_cols\<lparr>c_tt_end_time := Supplied (Some 540)\<rparr>) sample_db
      = Inr sample_db"
proof -
  have "find_row 41 (timetable sample_db) = Some ([], hd (timetable sample_db), [])"
    by code_simp
  moreover have "rls_old_row timetable_policies For_Update (user_ctx 1 200 0) sample_db
        (hd (timetable sample_db))"
    by code_simp
  moreover have "\<not> rls_old_row timetable_policies For_Update (user_ctx 2 200 0) sample_db
        (hd (timetable sample_db))"
    by code_simp
  moreover have "update_timetable (user_ctx 2 200 0) 41
        (no_timetable_cols\<lparr>c_tt_end_time := Supplied (Some 540)\<rparr>) sample_db
      = Inr sample_db"
    by code_simp
  moreover have "insert_timetable (user_ctx 1 200 42)
        (monday_cols\<lparr>c_tt_start_time := Supplied (Some 540),
                      c_tt_end_time := Supplied (Some 480)\<rparr>) sample_db
      = Inl Check_Violation"
    by code_simp
  moreover have "update_timetable (user_ctx 1 200 0) 41
        (no_timetable_cols\<lparr>c_tt_end_time := Supplied (Some 540)\<rparr>) sample_db
      = Inl Check_Violation"
    by code_simp
  moreover have "map (\<lambda>t. (tt_start_time t, tt_end_time t)) (timetable sample_db)
      = [(Some 540, Some 600)]"
    by (simp add: sample_db_def)
  ultimately show ?thesis
    using timetable_end_after_start [OF sample_db_reachable] sample_db_reachable
    by blast
qed

subsection \<open>One row per key\<close>

lemma distinct_map_at_most_one:
  "distinct (map f xs) \<Longrightarrow> length (filter (\<lambda>x. f x = v) xs) \<le> 1"
proof (induction xs)
  case Nil
  then show ?case by simp
next
  case (Cons x xs)
  show ?case
  proof (cases "f x = v")
    case True
    have "f y \<noteq> v" if "y \<in> set xs" for y
    proof
      assume "f y = v"
      with that True have "f x \<in> f ` set xs" by (metis imageI)
      with Cons.prems show False by simp
    qed
    then have "filter (\<lambda>y. f y = v) xs = []"
      by (simp add: filter_empty_conv)
    with True show ?thesis by simp
  next
    case False
    with Cons show ?thesis by simp
  qed
qed

lemma insert_profile_same_user:
  assumes "p \<in> set (profiles st)"
    and "pr_user_id (profile_assign (profile_defaults cx) s) = pr_user_id p"
  shows "\<exists>e. insert_profile cx s st = Inl e"
proof (cases "pr_user_id p")
  case None
  with assms(2) show ?thesis
    by (simp add: insert_profile_def Let_def profile_not_null_def)
next
  case (Some u)
  with assms have "\<not> unique_ok pr_user_id (profile_assign (profile_defaults cx) s) (profiles st)"
    by (force simp: unique_ok_def)
  then show ?thesis
    by (simp add: insert_profile_def Let_def)
qed

lemma insert_user_same_user:
  assumes "p \<in> set (profiles st)" and "pr_user_id p = Some (u_id u)"
  shows "\<exists>e. insert_user cx u st = Inl e"
proof (cases "u_id u \<in> set (map u_id (users st))")
  case True
  then show ?thesis by (simp add: insert_user_def)
next
  case False
  have "\<exists>e. insert_profile (cx\<lparr>bypass_rls := True\<rparr>)
       \<lparr>c_id = Omitted, c_created_at = Omitted, c_updated_at = Omitted,
        c_pr_user_id = Supplied (Some (u_id u)),
        c_pr_name = Supplied (coalesce (json_get_text (u_raw_user_meta_data u) ''name'')
                                       (u_email u)),
        c_pr_email = Supplied (u_email u),
        c_pr_role = Supplied (Some Student),
        c_pr_department = Omitted, c_pr_phone = Omitted\<rparr>
       (st\<lparr>users := users st @ [u]\<rparr>) = Inl e"
    by (rule insert_profile_same_user [of p]) (simp_all add: assms profile_assign_def)
  with False show ?thesis
    by (simp add: insert_user_def handle_new_user_def)
qed

text \<open>
  C8. In every reachable database no identity has two profiles, no room name names two
  classrooms and no course code two courses. An INSERT of a profile for an identity that
  has one fails, and so does creating an identity that has one.
\<close>

theorem one_row_per_key:
  assumes "reachable st"
  shows "length (filter (\<lambda>p. pr_user_id p = Some u) (profiles st)) \<le> 1
         \<and> length (filter (\<lambda>r. cr_room_name r = Some n) (classrooms st)) \<le> 1
         \<and> length (filter (\<lambda>c. co_course_code c = Some n) (courses st)) \<le> 1
         \<and> (\<forall>p \<in> set (profiles st).
               pr_user_id (profile_assign (profile_defaults cx) s) = pr_user_id p
               \<longrightarrow> (\<exists>e. insert_profile cx s st = Inl e))
         \<and> (\<forall>p \<in> set (profiles st).
               pr_user_id p = Some (u_id w) \<longrightarrow> (\<exists>e. insert_user cx w st = Inl e))"
proof -
  from keys_unique_reachable [OF assms]
  have d: "distinct (map pr_user_id (profiles st))" "distinct (map cr_room_name (classrooms st))"
    "distinct (map co_course_code (courses st))"
    by (simp_all add: keys_unique_def)
  show ?thesis
    using distinct_map_at_most_one [OF d(1), of "Some u"]
      distinct_map_at_most_one [OF d(2), of "Some n"]
      distinct_map_at_most_one [OF d(3), of "Some n"]
      insert_profile_same_user [of _ st cx s] insert_user_same_user [of _ st w cx]
    by blast
qed

theorem one_row_per_key_witness:
  "reachable sample_db
   \<and> length (filter (\<lambda>p. pr_user_id p = Some 2) (profiles sample_db)) = 1
   \<and> insert_profile (user_ctx 2 200 13)
        (no_profile_cols\<lparr>c_pr_user_id := Supplied (Some 2), c_pr_name := Supplied (Some ''Sam''),
                         c_pr_email := Supplied (Some ''sam@uni.edu'')\<rparr>) sample_db
      = Inl Unique_Violation
   \<and> insert_classroom (user_ctx 1 200 22) room_a101_cols sample_db = Inl Unique_Violation
   \<and> insert_course (user_ctx 1 200 32) cs101_cols sample_db = Inl Unique_Violation"
proof -
  have "length (filter (\<lambda>p. pr_user_id p = Some 2) (profiles sample_db)) = 1"
    by (simp add: sample_db_def)
  moreover have "insert_profile (user_ctx 2 200 13)
        (no_profile_cols\<lparr>c_pr_user_id := Supplied (Some 2), c_pr_name := Supplied (Some ''Sam''),
                         c_pr_email := Supplied (Some ''sam@uni.edu'')\<rparr>) sample_db
      = Inl Unique_Violation"
    by code_simp
  moreover have "insert_classroom (user_ctx 1 200 22) room_a101_cols sample_db
      = Inl Unique_Violation"
    by code_simp
  moreover have "insert_course (user_ctx 1 200 32) cs101_cols sample_db = Inl Unique_Violation"
    by code_simp
  ultimately show ?thesis
    using one_row_per_key [OF sample_db_reachable, of 2] sample_db_reachable
    by blast
qed

subsection \<open>Capacity and credits\<close>

lemma classroom_positive_iff:
  "classroom_not_null r \<and> classroom_check r
     \<Longrightarrow> \<exists>n. cr_capacity r = Some n \<and> 0 < n"
  by (cases "cr_capacity r")
    (auto simp: classroom_not_null_def classroom_check_def check_holds_def sql_gt_def)

lemma classroom_rejected:
  assumes "\<not> (\<exists>n. cr_capacity r = Some n \<and> 0 < n)"
  shows "\<not> classroom_not_null r \<or> \<not> classroom_check r"
  using assms classroom_positive_iff [of r] by blast

lemma course_check_iff:
  "course_check r \<longleftrightarrow> co_credits r = None \<or> (\<exists>n. co_credits r = Some n \<and> 0 < n)"
  by (cases "co_credits r") (auto simp: course_check_def check_holds_def sql_gt_def)

lemma insert_classroom_bad_capacity:
  assumes "\<not> (\<exists>n. cr_capacity (classroom_assign (classroom_defaults cx) s) = Some n \<and> 0 < n)"
  shows "\<exists>e. insert_classroom cx s st = Inl e"
  using classroom_rejected [OF assms]
  by (auto simp: insert_classroom_def Let_def)

lemma update_classroom_bad_capacity:
  assumes "find_row k (classrooms st) = Some (pre, old, post)"
    and "\<not> (\<exists>n. cr_capacity (classroom_assign old s) = Some n \<and> 0 < n)"
  shows "(rls_old_row classrooms_policies For_Update cx st old
            \<longrightarrow> (\<exists>e. update_classroom cx k s st = Inl e))
         \<and> (\<not> rls_old_row classrooms_policies For_Update cx st old
            \<longrightarrow> update_classroom cx k s st = Inr st)"
proof -
  let ?new = "update_updated_at_column cx (classroom_assign old s)"
  have "\<not> (\<exists>n. cr_capacity ?new = Some n \<and> 0 < n)"
    using assms(2) by (simp add: update_updated_at_column_def)
  from classroom_rejected [OF this] show ?thesis
    by (auto simp: update_classroom_def assms(1) Let_def)
qed

lemma insert_course_bad_credits:
  assumes "co_credits (course_assign (course_defaults cx) s) = Some n" and "n \<le> 0"
  shows "\<exists>e. insert_course cx s st = Inl e"
  using assms course_check_iff [of "course_assign (course_defaults cx) s"]
  by (auto simp: insert_course_def Let_def)

lemma update_course_bad_credits:
  assumes "find_row k (courses st) = Some (pre, old, post)"
    and "co_credits (course_assign old s) = Some n" and "n \<le> 0"
  shows "(rls_old_row courses_policies For_Update cx st old
            \<longrightarrow> (\<exists>e. update_course cx k s st = Inl e))
         \<and> (\<not> rls_old_row courses_policies For_Update cx st old
            \<longrightarrow> update_course cx k s st = Inr st)"
proof -
  let ?new = "update_updated_at_column cx (course_assign old s)"
  have "co_credits ?new = Some n"
    using assms(2) by (simp add: update_updated_at_column_def)
  with assms(3) course_check_iff [of ?new] have "\<not> course_check ?new"
    by auto
  then show ?thesis
    by (auto simp: update_course_def assms(1) Let_def)
qed

text \<open>
  C9, as the migration has it. In every reachable database each classroom has a capacity
  above zero, and each course has credits above zero or no credits at all (the column
  is nullable). An INSERT whose classroom row would not have a capacity above zero, or
  whose course row would have credits at or below zero, fails; so does such an UPDATE
  whenever the request reaches the row, and when the policies keep the request from the
  row the UPDATE touches nothing.
\<close>

theorem capacity_and_credits_positive:
  assumes "reachable st"
  shows "(\<forall>r \<in> set (classrooms st). \<exists>n. cr_capacity r = Some n \<and> 0 < n)
         \<and> (\<forall>c \<in> set (courses st).
               co_credits c = None \<or> (\<exists>n. co_credits c = Some n \<and> 0 < n))
         \<and> (\<not> (\<exists>n. cr_capacity (classroom_assign (classroom_defaults cx) s) = Some n \<and> 0 < n)
              \<longrightarrow> (\<exists>e. insert_classroom cx s st = Inl e))
         \<and> (\<forall>pre old post. find_row k (classrooms st) = Some (pre, old, post)
                \<and> \<not> (\<exists>n. cr_capacity (classroom_assign old s) = Some n \<and> 0 < n)
              \<longrightarrow> (rls_old_row classrooms_policies For_Update cx st old
                     \<longrightarrow> (\<exists>e. update_classroom cx k s st = Inl e))
                  \<and> (\<not> rls_old_row classrooms_policies For_Update cx st old
                     \<longrightarrow> update_classroom cx k s st = Inr st))
         \<and> (\<forall>n. co_credits (course_assign (course_defaults cx) s') = Some n \<and> n \<le> 0
              \<longrightarrow> (\<exists>e. insert_course cx s' st = Inl e))
         \<and> (\<forall>pre old post n. find_row k (courses st) = Some (pre, old, post)
                \<and> co_credits (course_assign old s') = Some n \<and> n \<le> 0
              \<longrightarrow> (rls_old_row courses_policies For_Update cx st old
                     \<longrightarrow> (\<exists>e. update_course cx k s' st = Inl e))
                  \<and> (\<not> rls_old_row courses_policies For_Update cx st old
                     \<longrightarrow> update_course cx k s' st = Inr st))"
proof -
  note rv = rows_valid_reachable [OF assms]
  have a: "\<forall>r \<in> set (classrooms st). \<exists>n. cr_capacity r = Some n \<and> 0 < n"
    using rv classroom_positive_iff by (simp add: rows_valid_def)
  have b: "\<forall>c \<in> set (courses st).
               co_credits c = None \<or> (\<exists>n. co_credits c = Some n \<and> 0 < n)"
    using rv course_check_iff by (simp add: rows_valid_def)
  show ?thesis
    using a b insert_classroom_bad_capacity [of cx s st]
      update_classroom_bad_capacity [of k st _ _ _ s cx]
      insert_course_bad_credits [of cx s' _ st]
      update_course_bad_credits [of k st _ _ _ s' _ cx]
    by blast
qed

theorem capacity_and_credits_positive_witness:
  "reachable sample_db
   \<and> map cr_capacity (classrooms sample_db) = [Some 50]
   \<and> map co_credits (courses sample_db) = [Some 3]
   \<and> update_classroom (user_ctx 1 200 0) 21
        (no_classroom_cols\<lparr>c_cr_capacity := Supplied (Some 0)\<rparr>) sample_db
      = Inl Check_Violation
   \<and> update_course (user_ctx 1 200 0) 31
        (no_course_cols\<lparr>c_co_credits := Supplied (Some (- 1))\<rparr>) sample_db
      = Inl Check_Violation
   \<and> find_row 21 (classrooms sample_db) = Some ([], hd (classrooms sample_db), [])
   \<and> rls_old_row classrooms_policies For_Update (user_ctx 1 200 0) sample_db
        (hd (classrooms sample_db))
   \<and> find_row 31 (courses sample_db) = Some ([], hd (courses sample_db), [])
   \<and> rls_old_row courses_policies For_Update (user_ctx 1 200 0) sample_db
        (hd (courses sample_db))"
proof -
  have "find_row 21 (classrooms sample_db) = Some ([], hd (classrooms sample_db), [])"
    by code_simp
  moreover have "rls_old_row classrooms_policies For_Update (user_ctx 1 200 0) sample_db
        (hd (classrooms sample_db))"
    by code_simp
  moreover have "find_row 31 (courses sample_db) = Some ([], hd (courses sample_db), [])"
    by code_simp
  moreover have "rls_old_row courses_policies For_Update (user_ctx 1 200 0) sample_db
        (hd (courses sample_db))"
    by code_simp
  moreover have "update_classroom (user_ctx 1 200 0) 21
        (no_classroom_cols\<lparr>c_cr_capacity := Supplied (Some 0)\<rparr>) sample_db
      = Inl Check_Violation"
    by code_simp
  moreover have "update_course (user_ctx 1 200 0) 31
        (no_course_cols\<lparr>c_co_credits := Supplied (Some (- 1))\<rparr>) sample_db
      = Inl Check_Violation"
    by code_simp
  moreover have "map cr_capacity (classrooms sample_db) = [Some 50]"
    "map co_credits (courses sample_db) = [Some 3]"
    by (simp_all add: sample_db_def)
  ultimately show ?thesis
    using capacity_and_credits_positive [OF sample_db_reachable] sample_db_reachable
    by blast
qed

text \<open>
  A course inserted with an explicit NULL for \<open>credits\<close> is accepted into the empty
  database: a reachable database holds a course whose credits are not above zero.
\<close>

theorem credits_null_counterexample:
  "exec (service_ctx 100 31) (Insert_Course null_credits_cols) empty_db = Inr null_credits_db
   \<and> reachable null_credits_db
   \<and> map co_credits (courses null_credits_db) = [None]"
proof -
  have "reachable null_credits_db"
    using reachable.init null_credits_db_run by (rule reachable.step)
  then show ?thesis
    using null_credits_db_run by (simp add: null_credits_db_def empty_db_def)
qed

subsection \<open>Deleting what the timetable refers to\<close>

lemma removed_key_gone:
  assumes "distinct (map row_id (pre @ old # post))" and "row_id old = Some k"
  shows "Some k \<notin> set (map row_id (pre @ post))"
  using assms by auto

lemma delete_course_cascade:
  assumes "keys_unique st" and "delete_course cx k st = Inr st'"
  shows "st' = st \<or> (timetable st' = filter (\<lambda>t. tt_course_id t \<noteq> Some k) (timetable st)
                      \<and> Some k \<notin> set (map row_id (courses st')))"
proof -
  from delete_course_Inr [OF assms(2)]
  consider "st' = st"
    | pre old post where "courses st = pre @ old # post" "row_id old = Some k"
        "st' = st\<lparr>courses := pre @ post,
                  timetable := filter (\<lambda>t. tt_course_id t \<noteq> Some k) (timetable st)\<rparr>"
    by blast
  then show ?thesis
  proof cases
    case 1
    then show ?thesis by simp
  next
    case 2
    from assms(1) 2(1) have "distinct (map row_id (pre @ old # post))"
      by (simp add: keys_unique_def)
    from removed_key_gone [OF this 2(2)] 2(3) show ?thesis by simp
  qed
qed

lemma delete_profile_cascade:
  assumes "keys_unique st" and "delete_profile cx k st = Inr st'"
  shows "st' = st \<or> (timetable st' = filter (\<lambda>t. tt_faculty_id t \<noteq> Some k) (timetable st)
                      \<and> Some k \<notin> set (map row_id (profiles st')))"
proof -
  from delete_profile_Inr [OF assms(2)]
  consider "st' = st"
    | pre old post where "profiles st = pre @ old # post" "row_id old = Some k"
        "st' = st\<lparr>profiles := pre @ post,
                  timetable := filter (\<lambda>t. tt_faculty_id t \<noteq> Some k) (timetable st)\<rparr>"
    by blast
  then show ?thesis
  proof cases
    case 1
    then show ?thesis by simp
  next
    case 2
    from assms(1) 2(1) have "distinct (map row_id (pre @ old # post))"
      by (simp add: keys_unique_def)
    from removed_key_gone [OF this 2(2)] 2(3) show ?thesis by simp
  qed
qed

lemma delete_classroom_cascade:
  assumes "keys_unique st" and "delete_classroom cx k st = Inr st'"
  shows "st' = st \<or> (timetable st' = filter (\<lambda>t. tt_room_id t \<noteq> Some k) (timetable st)
                      \<and> Some k \<notin> set (map row_id (classrooms st')))"
proof -
  from delete_classroom_Inr [OF assms(2)]
  consider "st' = st"
    | pre old post where "classrooms st = pre @ old # post" "row_id old = Some k"
        "st' = st\<lparr>classrooms := pre @ post,
                  timetable := filter (\<lambda>t. tt_room_id t \<noteq> Some k) (timetable st)\<rparr>"
    by blast
  then show ?thesis
  proof cases
    case 1
    then show ?thesis by simp
  next
    case 2
    from assms(1) 2(1) have "distinct (map row_id (pre @ old # post))"
      by (simp add: keys_unique_def)
    from removed_key_gone [OF this 2(2)] 2(3) show ?thesis by simp
  qed
qed

lemma delete_user_cascade:
  assumes "rows_valid st" and "delete_user u st = Inr st'"
  shows "profiles st' = filter (\<lambda>p. pr_user_id p \<noteq> Some u) (profiles st)
         \<and> timetable st' =
             filter (\<lambda>t. tt_faculty_id t
                          \<notin> row_id ` {p \<in> set (profiles st). pr_user_id p = Some u})
               (timetable st)"
proof -
  have "(tt_faculty_id t = None
          \<or> tt_faculty_id t \<notin> set (map row_id (filter (\<lambda>p. pr_user_id p = Some u) (profiles st))))
        = (tt_faculty_id t \<notin> row_id ` {p \<in> set (profiles st). pr_user_id p = Some u})"
    if "t \<in> set (timetable st)" for t
  proof -
    from assms(1) that have "tt_faculty_id t \<noteq> None"
      by (simp add: rows_valid_def timetable_not_null_def)
    then show ?thesis by auto
  qed
  then have "filter (\<lambda>t. tt_faculty_id t = None
          \<or> tt_faculty_id t \<notin> set (map row_id (filter (\<lambda>p. pr_user_id p = Some u) (profiles st))))
          (timetable st)
        = filter (\<lambda>t. tt_faculty_id t
                          \<notin> row_id ` {p \<in> set (profiles st). pr_user_id p = Some u})
               (timetable st)"
    by (rule filter_cong [OF refl])
  with delete_user_Inr [OF assms(2)] show ?thesis by simp
qed

lemma timetable_refs_exist:
  assumes "rows_valid st" and "timetable_refs_valid st" and "t \<in> set (timetable st)"
  shows "(\<exists>c \<in> set (courses st). tt_course_id t \<noteq> None \<and> row_id c = tt_course_id t)
         \<and> (\<exists>p \<in> set (profiles st). tt_faculty_id t \<noteq> None \<and> row_id p = tt_faculty_id t)
         \<and> (\<exists>r \<in> set (classrooms st). tt_room_id t \<noteq> None \<and> row_id r = tt_room_id t)"
proof -
  from assms(1,3) have "tt_course_id t \<noteq> None" "tt_faculty_id t \<noteq> None" "tt_room_id t \<noteq> None"
    by (simp_all add: rows_valid_def timetable_not_null_def)
  moreover from assms(2,3) have "fk_ok (tt_course_id t) (map row_id (courses st))"
    "fk_ok (tt_faculty_id t) (map row_id (profiles st))"
    "fk_ok (tt_room_id t) (map row_id (classrooms st))"
    by (simp_all add: timetable_refs_valid_def)
  ultimately show ?thesis
    by (auto simp: fk_ok_def)
qed

lemma delete_course_reaches:
  assumes "find_row k (courses st) = Some (pre, old, post)"
    and "rls_old_row courses_policies For_Delete cx st old"
  shows "delete_course cx k st
         = Inr (st\<lparr>courses := pre @ post,
                   timetable := filter (\<lambda>t. tt_course_id t \<noteq> Some k) (timetable st)\<rparr>)"
  using assms by (simp add: delete_course_def)

lemma delete_course_misses:
  "find_row k (courses st) = None \<Longrightarrow> delete_course cx k st = Inr st"
  "find_row k (courses st) = Some (pre, old, post)
     \<Longrightarrow> \<not> rls_old_row courses_policies For_Delete cx st old
     \<Longrightarrow> delete_course cx k st = Inr st"
  by (simp_all add: delete_course_def)

lemma delete_course_key_gone:
  assumes "keys_unique st" and "find_row k (courses st) = Some (pre, old, post)"
  shows "Some k \<notin> set (map row_id (pre @ post))"
proof -
  from find_row_SomeD [OF assms(2)]
  have "courses st = pre @ old # post" and k: "row_id old = Some k"
    by simp_all
  with assms(1) have "distinct (map row_id (pre @ old # post))"
    by (simp add: keys_unique_def)
  from removed_key_gone [OF this k] show ?thesis .
qed

lemma delete_profile_reaches:
  assumes "find_row k (profiles st) = Some (pre, old, post)"
    and "rls_old_row profiles_policies For_Delete cx st old"
  shows "delete_profile cx k st
         = Inr (st\<lparr>profiles := pre @ post,
                   timetable := filter (\<lambda>t. tt_faculty_id t \<noteq> Some k) (timetable st)\<rparr>)"
  using assms by (simp add: delete_profile_def)

lemma delete_profile_misses:
  "find_row k (profiles st) = None \<Longrightarrow> delete_profile cx k st = Inr st"
  "find_row k (profiles st) = Some (pre, old, post)
     \<Longrightarrow> \<not> rls_old_row profiles_policies For_Delete cx st old
     \<Longrightarrow> delete_profile cx k st = Inr st"
  by (simp_all add: delete_profile_def)

lemma delete_profile_key_gone:
  assumes "keys_unique st" and "find_row k (profiles st) = Some (pre, old, post)"
  shows "Some k \<notin> set (map row_id (pre @ post))"
proof -
  from find_row_SomeD [OF assms(2)]
  have "profiles st = pre @ old # post" and k: "row_id old = Some k"
    by simp_all
  with assms(1) have "distinct (map row_id (pre @ old # post))"
    by (simp add: keys_unique_def)
  from removed_key_gone [OF this k] show ?thesis .
qed

lemma delete_classroom_reaches:
  assumes "find_row k (classrooms st) = Some (pre, old, post)"
    and "rls_old_row classrooms_policies For_Delete cx st old"
  shows "delete_classroom cx k st
         = Inr (st\<lparr>classrooms := pre @ post,
                   timetable := filter (\<lambda>t. tt_room_id t \<noteq> Some k) (timetable st)\<rparr>)"
  using assms by (simp add: delete_classroom_def)

lemma delete_classroom_misses:
  "find_row k (classrooms st) = None \<Longrightarrow> delete_classroom cx k st = Inr st"
  "find_row k (classrooms st) = Some (pre, old, post)
     \<Longrightarrow> \<not> rls_old_row classrooms_policies For_Delete cx st old
     \<Longrightarrow> delete_classroom cx k st = Inr st"
  by (simp_all add: delete_classroom_def)

lemma delete_classroom_key_gone:
  assumes "keys_unique st" and "find_row k (classrooms st) = Some (pre, old, post)"
  shows "Some k \<notin> set (map row_id (pre @ post))"
proof -
  from find_row_SomeD [OF assms(2)]
  have "classrooms st = pre @ old # post" and k: "row_id old = Some k"
    by simp_all
  with assms(1) have "distinct (map row_id (pre @ old # post))"
    by (simp add: keys_unique_def)
  from removed_key_gone [OF this k] show ?thesis .
qed

lemma delete_reach:
  "rls_old_row courses_policies For_Delete cx st c
     \<longleftrightarrow> bypass_rls cx \<or> has_role st (auth_uid cx) Admin"
  "rls_old_row classrooms_policies For_Delete cx st r
     \<longleftrightarrow> bypass_rls cx \<or> has_role st (auth_uid cx) Admin"
  "rls_old_row profiles_policies For_Delete cx st p \<longleftrightarrow> bypass_rls cx"
  by (simp_all add: rls_old_row_def rls_using_def courses_policy_write courses_policy_select
      classrooms_policy_write classrooms_policy_select)
    (simp add: pol_defs profiles_policies_def)

text \<open>
  C7. In every reachable database each timetable entry refers to a course, a profile and
  a classroom that exist. A DELETE that reaches the course, profile or classroom with
  the given key removes that row and, in the same statement, exactly the timetable
  entries that refer to it; no row with the key is left, and the entries that remain
  are the old ones, in their order. A DELETE reaches a course or a classroom for an
  admin and for a role the policies do not bind, and a profile for such a role only; a
  DELETE that finds no row or does not reach it changes nothing, so a DELETE that
  returns either has changed nothing or has done all of the above. Deleting an identity
  removes its profiles and exactly the entries that name one of them as faculty.
\<close>

theorem timetable_cascade:
  assumes "reachable st"
  shows "(\<forall>t \<in> set (timetable st).
            (\<exists>c \<in> set (courses st). tt_course_id t \<noteq> None \<and> row_id c = tt_course_id t)
            \<and> (\<exists>p \<in> set (profiles st). tt_faculty_id t \<noteq> None \<and> row_id p = tt_faculty_id t)
            \<and> (\<exists>r \<in> set (classrooms st). tt_room_id t \<noteq> None \<and> row_id r = tt_room_id t))
         \<and> (\<forall>pre old post. find_row k (courses st) = Some (pre, old, post)
                \<and> rls_old_row courses_policies For_Delete cx st old
              \<longrightarrow> delete_course cx k st
                    = Inr (st\<lparr>courses := pre @ post,
                              timetable := filter (\<lambda>t. tt_course_id t \<noteq> Some k) (timetable st)\<rparr>)
                  \<and> Some k \<notin> set (map row_id (pre @ post)))
         \<and> (\<forall>pre old post. find_row k (courses st) = None
                \<or> (find_row k (courses st) = Some (pre, old, post)
                    \<and> \<not> rls_old_row courses_policies For_Delete cx st old)
              \<longrightarrow> delete_course cx k st = Inr st)
         \<and> (\<forall>pre old post. find_row k (profiles st) = Some (pre, old, post)
                \<and> rls_old_row profiles_policies For_Delete cx st old
              \<longrightarrow> delete_profile cx k st
                    = Inr (st\<lparr>profiles := pre @ post,
                              timetable := filter (\<lambda>t. tt_faculty_id t \<noteq> Some k) (timetable st)\<rparr>)
                  \<and> Some k \<notin> set (map row_id (pre @ post)))
         \<and> (\<forall>pre old post. find_row k (profiles st) = None
                \<or> (find_row k (profiles st) = Some (pre, old, post)
                    \<and> \<not> rls_old_row profiles_policies For_Delete cx st old)
              \<longrightarrow> delete_profile cx k st = Inr st)
         \<and> (\<forall>pre old post. find_row k (classrooms st) = Some (pre, old, post)
                \<and> rls_old_row classrooms_policies For_Delete cx st old
              \<longrightarrow> delete_classroom cx k st
                    = Inr (st\<lparr>classrooms := pre @ post,
                              timetable := filter (\<lambda>t. tt_room_id t \<noteq> Some k) (timetable st)\<rparr>)
                  \<and> Some k \<notin> set (map row_id (pre @ post)))
         \<and> (\<forall>pre old post. find_row k (classrooms st) = None
                \<or> (find_row k (classrooms st) = Some (pre, old, post)
                    \<and> \<not> rls_old_row classrooms_policies For_Delete cx st old)
              \<longrightarrow> delete_classroom cx k st = Inr st)
         \<and> (\<forall>c. rls_old_row courses_policies For_Delete cx st c
                \<longleftrightarrow> bypass_rls cx \<or> has_role st (auth_uid cx) Admin)
         \<and> (\<forall>r. rls_old_row classrooms_policies For_Delete cx st r
                \<longleftrightarrow> bypass_rls cx \<or> has_role st (auth_uid cx) Admin)
         \<and> (\<forall>p. rls_old_row profiles_policies For_Delete cx st p \<longleftrightarrow> bypass_rls cx)
         \<and> (\<forall>st'. delete_course cx k st = Inr st' \<longrightarrow>
               st' = st \<or> (timetable st' = filter (\<lambda>t. tt_course_id t \<noteq> Some k) (timetable st)
                            \<and> Some k \<notin> set (map row_id (courses st'))))
         \<and> (\<forall>st'. delete_profile cx k st = Inr st' \<longrightarrow>
               st' = st \<or> (timetable st' = filter (\<lambda>t. tt_faculty_id t \<noteq> Some k) (timetable st)
                            \<and> Some k \<notin> set (map row_id (profiles st'))))
         \<and> (\<forall>st'. delete_classroom cx k st = Inr st' \<longrightarrow>
               st' = st \<or> (timetable st' = filter (\<lambda>t. tt_room_id t \<noteq> Some k) (timetable st)
                            \<and> Some k \<notin> set (map row_id (classrooms st'))))
         \<and> (\<forall>st'. delete_user u st = Inr st' \<longrightarrow>
               profiles st' = filter (\<lambda>p. pr_user_id p \<noteq> Some u) (profiles st)
               \<and> timetable st' =
                   filter (\<lambda>t. tt_faculty_id t
                                \<notin> row_id ` {p \<in> set (profiles st). pr_user_id p = Some u})
                     (timetable st))"
proof -
  note rv = rows_valid_reachable [OF assms]
  note ku = keys_unique_reachable [OF assms]
  note tr = timetable_refs_valid_reachable [OF assms]
  have refs: "\<forall>t \<in> set (timetable st).
            (\<exists>c \<in> set (courses st). tt_course_id t \<noteq> None \<and> row_id c = tt_course_id t)
            \<and> (\<exists>p \<in> set (profiles st). tt_faculty_id t \<noteq> None \<and> row_id p = tt_faculty_id t)
            \<and> (\<exists>r \<in> set (classrooms st). tt_room_id t \<noteq> None \<and> row_id r = tt_room_id t)"
    using timetable_refs_exist [OF rv tr] by blast
  have co: "(\<forall>pre old post. find_row k (courses st) = Some (pre, old, post)
                \<and> rls_old_row courses_policies For_Delete cx st old
              \<longrightarrow> delete_course cx k st
                    = Inr (st\<lparr>courses := pre @ post,
                              timetable := filter (\<lambda>t. tt_course_id t \<noteq> Some k) (timetable st)\<rparr>)
                  \<and> Some k \<notin> set (map row_id (pre @ post)))
         \<and> (\<forall>pre old post. find_row k (courses st) = None
                \<or> (find_row k (courses st) = Some (pre, old, post)
                    \<and> \<not> rls_old_row courses_policies For_Delete cx st old)
              \<longrightarrow> delete_course cx k st = Inr st)"
    using delete_course_reaches [of k st _ _ _ cx] delete_course_key_gone [OF ku, of k]
      delete_course_misses [where k = k and st = st and cx = cx]
    by blast
  have pr: "(\<forall>pre old post. find_row k (profiles st) = Some (pre, old, post)
                \<and> rls_old_row profiles_policies For_Delete cx st old
              \<longrightarrow> delete_profile cx k st
                    = Inr (st\<lparr>profiles := pre @ post,
                              timetable := filter (\<lambda>t. tt_faculty_id t \<noteq> Some k) (timetable st)\<rparr>)
                  \<and> Some k \<notin> set (map row_id (pre @ post)))
         \<and> (\<forall>pre old post. find_row k (profiles st) = None
                \<or> (find_row k (profiles st) = Some (pre, old, post)
                    \<and> \<not> rls_old_row profiles_policies For_Delete cx st old)
              \<longrightarrow> delete_profile cx k st = Inr st)"
    using delete_profile_reaches [of k st _ _ _ cx] delete_profile_key_gone [OF ku, of k]
      delete_profile_misses [where k = k and st = st and cx = cx]
    by blast
  have cr: "(\<forall>pre old post. find_row k (classrooms st) = Some (pre, old, post)
                \<and> rls_old_row classrooms_policies For_Delete cx st old
              \<longrightarrow> delete_classroom cx k st
                    = Inr (st\<lparr>classrooms := pre @ post,
                              timetable := filter (\<lambda>t. tt_room_id t \<noteq> Some k) (timetable st)\<rparr>)
                  \<and> Some k \<notin> set (map row_id (pre @ post)))
         \<and> (\<forall>pre old post. find_row k (classrooms st) = None
                \<or> (find_row k (classrooms st) = Some (pre, old, post)
                    \<and> \<not> rls_old_row classrooms_policies For_Delete cx st old)
              \<longrightarrow> delete_classroom cx k st = Inr st)"
    using delete_classroom_reaches [of k st _ _ _ cx] delete_classroom_key_gone [OF ku, of k]
      delete_classroom_misses [where k = k and st = st and cx = cx]
    by blast
  have old: "(\<forall>st'. delete_course cx k st = Inr st' \<longrightarrow>
               st' = st \<or> (timetable st' = filter (\<lambda>t. tt_course_id t \<noteq> Some k) (timetable st)
                            \<and> Some k \<notin> set (map row_id (courses st'))))
         \<and> (\<forall>st'. delete_profile cx k st = Inr st' \<longrightarrow>
               st' = st \<or> (timetable st' = filter (\<lambda>t. tt_faculty_id t \<noteq> Some k) (timetable st)
                            \<and> Some k \<notin> set (map row_id (profiles st'))))
         \<and> (\<forall>st'. delete_classroom cx k st = Inr st' \<longrightarrow>
               st' = st \<or> (timetable st' = filter (\<lambda>t. tt_room_id t \<noteq> Some k) (timetable st)
                            \<and> Some k \<notin> set (map row_id (classrooms st'))))
         \<and> (\<forall>st'. delete_user u st = Inr st' \<longrightarrow>
               profiles st' = filter (\<lambda>p. pr_user_id p \<noteq> Some u) (profiles st)
               \<and> timetable st' =
                   filter (\<lambda>t. tt_faculty_id t
                                \<notin> row_id ` {p \<in> set (profiles st). pr_user_id p = Some u})
                     (timetable st))"
    using delete_course_cascade [OF ku, of cx k]
      delete_profile_cascade [OF ku, of cx k] delete_classroom_cascade [OF ku, of cx k]
      delete_user_cascade [OF rv, of u]
    by blast
  have who: "(\<forall>c. rls_old_row courses_policies For_Delete cx st c
                \<longleftrightarrow> bypass_rls cx \<or> has_role st (auth_uid cx) Admin)
         \<and> (\<forall>r. rls_old_row classrooms_policies For_Delete cx st r
                \<longleftrightarrow> bypass_rls cx \<or> has_role st (auth_uid cx) Admin)
         \<and> (\<forall>p. rls_old_row profiles_policies For_Delete cx st p \<longleftrightarrow> bypass_rls cx)"
    by (simp add: delete_reach)
  from refs co pr cr who old show ?thesis
    by (intro conjI) (elim conjE, assumption)+
qed

theorem timetable_cascade_witness:
  "reachable sample_db
   \<and> find_row 31 (courses sample_db) = Some ([], hd (courses sample_db), [])
   \<and> rls_old_row courses_policies For_Delete (user_ctx 1 200 0) sample_db
        (hd (courses sample_db))
   \<and> delete_course (user_ctx 1 200 0) 31 sample_db
      = Inr (sample_db\<lparr>courses := [] @ [],
               timetable := filter (\<lambda>t. tt_course_id t \<noteq> Some 31) (timetable sample_db)\<rparr>)
   \<and> find_row 21 (classrooms sample_db) = Some ([], hd (classrooms sample_db), [])
   \<and> rls_old_row classrooms_policies For_Delete (user_ctx 1 200 0) sample_db
        (hd (classrooms sample_db))
   \<and> delete_classroom (user_ctx 1 200 0) 21 sample_db
      = Inr (sample_db\<lparr>classrooms := [] @ [],
               timetable := filter (\<lambda>t. tt_room_id t \<noteq> Some 21) (timetable sample_db)\<rparr>)
   \<and> find_row 11 (profiles sample_db)
      = Some ([], hd (profiles sample_db), tl (profiles sample_db))
   \<and> rls_old_row profiles_policies For_Delete (service_ctx 200 0) sample_db
        (hd (profiles sample_db))
   \<and> delete_profile (service_ctx 200 0) 11 sample_db
      = Inr (sample_db\<lparr>profiles := [] @ tl (profiles sample_db),
               timetable := filter (\<lambda>t. tt_faculty_id t \<noteq> Some 11) (timetable sample_db)\<rparr>)
   \<and> filter (\<lambda>t. tt_course_id t \<noteq> Some 31) (timetable sample_db) = []
   \<and> filter (\<lambda>t. tt_room_id t \<noteq> Some 21) (timetable sample_db) = []
   \<and> filter (\<lambda>t. tt_faculty_id t \<noteq> Some 11) (timetable sample_db) = []
   \<and> timetable sample_db \<noteq> []
   \<and> \<not> rls_old_row profiles_policies For_Delete (user_ctx 1 200 0) sample_db
        (hd (profiles sample_db))
   \<and> delete_profile (user_ctx 1 200 0) 11 sample_db = Inr sample_db
   \<and> find_row 22 (classrooms sample_db) = None
   \<and> delete_classroom (user_ctx 1 200 0) 22 sample_db = Inr sample_db"
proof -
  have a: "find_row 31 (courses sample_db) = Some ([], hd (courses sample_db), [])"
    "find_row 21 (classrooms sample_db) = Some ([], hd (classrooms sample_db), [])"
    "find_row 11 (profiles sample_db)
      = Some ([], hd (profiles sample_db), tl (profiles sample_db))"
    "find_row 22 (classrooms sample_db) = None"
    by code_simp+
  have b: "rls_old_row courses_policies For_Delete (user_ctx 1 200 0) sample_db
        (hd (courses sample_db))"
    "rls_old_row classrooms_policies For_Delete (user_ctx 1 200 0) sample_db
        (hd (classrooms sample_db))"
    "rls_old_row profiles_policies For_Delete (service_ctx 200 0) sample_db
        (hd (profiles sample_db))"
    "\<not> rls_old_row profiles_policies For_Delete (user_ctx 1 200 0) sample_db
        (hd (profiles sample_db))"
    by code_simp+
  have c: "filter (\<lambda>t. tt_course_id t \<noteq> Some 31) (timetable sample_db) = []"
    "filter (\<lambda>t. tt_room_id t \<noteq> Some 21) (timetable sample_db) = []"
    "filter (\<lambda>t. tt_faculty_id t \<noteq> Some 11) (timetable sample_db) = []"
    "timetable sample_db \<noteq> []"
    by (simp_all add: sample_db_def)
  note cascade = timetable_cascade [OF sample_db_reachable]
  have d1: "delete_course (user_ctx 1 200 0) 31 sample_db
      = Inr (sample_db\<lparr>courses := [] @ [],
               timetable := filter (\<lambda>t. tt_course_id t \<noteq> Some 31) (timetable sample_db)\<rparr>)"
    using cascade [where k = 31 and cx = "user_ctx 1 200 0", THEN conjunct2, THEN conjunct1]
      a(1) b(1)
    by blast
  have d2: "delete_classroom (user_ctx 1 200 0) 21 sample_db
      = Inr (sample_db\<lparr>classrooms := [] @ [],
               timetable := filter (\<lambda>t. tt_room_id t \<noteq> Some 21) (timetable sample_db)\<rparr>)"
    using cascade [where k = 21 and cx = "user_ctx 1 200 0", THEN conjunct2, THEN conjunct2, THEN conjunct2, THEN conjunct2, THEN conjunct2, THEN conjunct1]
      a(2) b(2)
    by blast
  have d3: "delete_profile (service_ctx 200 0) 11 sample_db
      = Inr (sample_db\<lparr>profiles := [] @ tl (profiles sample_db),
               timetable := filter (\<lambda>t. tt_faculty_id t \<noteq> Some 11) (timetable sample_db)\<rparr>)"
    using cascade [where k = 11 and cx = "service_ctx 200 0", THEN conjunct2, THEN conjunct2, THEN conjunct2, THEN conjunct1]
      a(3) b(3)
    by blast
  have d4: "delete_profile (user_ctx 1 200 0) 11 sample_db = Inr sample_db"
    using cascade [where k = 11 and cx = "user_ctx 1 200 0", THEN conjunct2, THEN conjunct2, THEN conjunct2, THEN conjunct2, THEN conjunct1]
      a(3) b(4)
    by blast
  have d5: "delete_classroom (user_ctx 1 200 0) 22 sample_db = Inr sample_db"
    using cascade [where k = 22 and cx = "user_ctx 1 200 0", THEN conjunct2, THEN conjunct2, THEN conjunct2, THEN conjunct2, THEN conjunct2, THEN conjunct2, THEN conjunct1]
      a(4)
    by blast
  from sample_db_reachable a b c d1 d2 d3 d4 d5 show ?thesis
    by (intro conjI) assumption+
qed

subsection \<open>The profile of a new identity\<close>

text \<open>
  C2. When an identity is created, the trigger has appended exactly one profile: it
  belongs to the identity, its role is student, its email is the identity's, and its
  name is the \<open>name\<close> of the signup metadata when there is one and the identity's email
  otherwise. It is the only profile of that identity, and no other table has changed.
\<close>

theorem new_identity_gets_student_profile:
  assumes "insert_user cx u st = Inr st'"
  shows "users st' = users st @ [u]
         \<and> (\<exists>p. profiles st' = profiles st @ [p]
                \<and> pr_user_id p = Some (u_id u)
                \<and> pr_role p = Some Student
                \<and> pr_email p = u_email u \<and> u_email u \<noteq> None
                \<and> pr_name p = (case json_get_text (u_raw_user_meta_data u) ''name'' of
                                 Some n \<Rightarrow> Some n | None \<Rightarrow> u_email u))
         \<and> filter (\<lambda>q. pr_user_id q = Some (u_id u)) (profiles st) = []
         \<and> classrooms st' = classrooms st \<and> courses st' = courses st
         \<and> timetable st' = timetable st \<and> feedback st' = feedback st"
proof -
  from insert_user_Inr [OF assms] obtain new where
    new: "new = \<lparr>row_id = Some (gen_random_uuid cx), created_at = Some (now cx),
                 updated_at = Some (now cx), pr_user_id = Some (u_id u),
                 pr_name = coalesce (json_get_text (u_raw_user_meta_data u) ''name'')
                             (u_email u),
                 pr_email = u_email u, pr_role = Some Student,
                 pr_department = None, pr_phone = None\<rparr>"
    and st': "st' = st\<lparr>users := users st @ [u], profiles := profiles st @ [new]\<rparr>"
    and nn: "profile_not_null new"
    and un: "unique_ok pr_user_id new (profiles st)"
    by blast
  from nn new have email: "u_email u \<noteq> None"
    by (simp add: profile_not_null_def)
  from un new have "Some (u_id u) \<notin> set (map pr_user_id (profiles st))"
    by (simp add: unique_ok_def)
  then have none: "filter (\<lambda>q. pr_user_id q = Some (u_id u)) (profiles st) = []"
    by (simp add: filter_empty_conv) (metis imageI)
  have "profiles st' = profiles st @ [new] \<and> pr_user_id new = Some (u_id u)
        \<and> pr_role new = Some Student \<and> pr_email new = u_email u \<and> u_email u \<noteq> None
        \<and> pr_name new = (case json_get_text (u_raw_user_meta_data u) ''name'' of
                                 Some n \<Rightarrow> Some n | None \<Rightarrow> u_email u)"
    using st' email by (simp add: new coalesce_def)
  then show ?thesis
    using st' none by auto
qed

theorem new_identity_gets_student_profile_witness:
  "insert_user (service_ctx 100 11) lee empty_db
     = Inr (empty_db\<lparr>users := [lee],
              profiles := [\<lparr>row_id = Some 11, created_at = Some 100, updated_at = Some 100,
                pr_user_id = Some 1, pr_name = Some ''Dr. Lee'',
                pr_email = Some ''lee@uni.edu'', pr_role = Some Student,
                pr_department = None, pr_phone = None\<rparr>]\<rparr>)
   \<and> insert_user (service_ctx 101 12) sam empty_db
     = Inr (empty_db\<lparr>users := [sam],
              profiles := [\<lparr>row_id = Some 12, created_at = Some 101, updated_at = Some 101,
                pr_user_id = Some 2, pr_name = Some ''sam@uni.edu'',
                pr_email = Some ''sam@uni.edu'', pr_role = Some Student,
                pr_department = None, pr_phone = None\<rparr>]\<rparr>)
   \<and> users (empty_db\<lparr>users := [lee],
              profiles := [\<lparr>row_id = Some 11, created_at = Some 100, updated_at = Some 100,
                pr_user_id = Some 1, pr_name = Some ''Dr. Lee'',
                pr_email = Some ''lee@uni.edu'', pr_role = Some Student,
                pr_department = None, pr_phone = None\<rparr>]\<rparr>) = users empty_db @ [lee]
   \<and> users (empty_db\<lparr>users := [sam],
              profiles := [\<lparr>row_id = Some 12, created_at = Some 101, updated_at = Some 101,
                pr_user_id = Some 2, pr_name = Some ''sam@uni.edu'',
                pr_email = Some ''sam@uni.edu'', pr_role = Some Student,
                pr_department = None, pr_phone = None\<rparr>]\<rparr>) = users empty_db @ [sam]"
proof -
  have a: "insert_user (service_ctx 100 11) lee empty_db
     = Inr (empty_db\<lparr>users := [lee],
              profiles := [\<lparr>row_id = Some 11, created_at = Some 100, updated_at = Some 100,
                pr_user_id = Some 1, pr_name = Some ''Dr. Lee'',
                pr_email = Some ''lee@uni.edu'', pr_role = Some Student,
                pr_department = None, pr_phone = None\<rparr>]\<rparr>)"
    by code_simp
  have b: "insert_user (service_ctx 101 12) sam empty_db
     = Inr (empty_db\<lparr>users := [sam],
              profiles := [\<lparr>row_id = Some 12, created_at = Some 101, updated_at = Some 101,
                pr_user_id = Some 2, pr_name = Some ''sam@uni.edu'',
                pr_email = Some ''sam@uni.edu'', pr_role = Some Student,
                pr_department = None, pr_phone = None\<rparr>]\<rparr>)"
    by code_simp
  show ?thesis
    using a b new_identity_gets_student_profile [OF a] new_identity_gets_student_profile [OF b]
    by blast
qed

subsection \<open>The modification time of an updated row\<close>

lemma refreshed_not_earlier:
  "qual_holds (sql_ge (updated_at (r\<lparr>updated_at := Some t\<rparr>)) (updated_at old))
     \<longleftrightarrow> (\<exists>t0. updated_at old = Some t0 \<and> t0 \<le> t)"
  by (cases "updated_at old") (simp_all add: qual_holds_def sql_ge_def)

lemma update_profile_row:
  assumes "find_row k (profiles st) = Some (pre, old, post)"
    and "rls_old_row profiles_policies For_Update cx st old"
    and "update_profile cx k s st = Inr st'"
  shows "profiles st' = pre @ (profile_assign old s)\<lparr>updated_at := Some (now cx)\<rparr> # post"
  using assms
  by (auto simp: update_profile_def Let_def update_updated_at_column_def split: if_splits)

lemma update_classroom_row:
  assumes "find_row k (classrooms st) = Some (pre, old, post)"
    and "rls_old_row classrooms_policies For_Update cx st old"
    and "update_classroom cx k s st = Inr st'"
  shows "classrooms st' = pre @ (classroom_assign old s)\<lparr>updated_at := Some (now cx)\<rparr> # post"
  using assms
  by (auto simp: update_classroom_def Let_def update_updated_at_column_def split: if_splits)

lemma update_course_row:
  assumes "find_row k (courses st) = Some (pre, old, post)"
    and "rls_old_row courses_policies For_Update cx st old"
    and "update_course cx k s st = Inr st'"
  shows "courses st' = pre @ (course_assign old s)\<lparr>updated_at := Some (now cx)\<rparr> # post"
  using assms
  by (auto simp: update_course_def Let_def update_updated_at_column_def split: if_splits)

lemma update_timetable_row:
  assumes "find_row k (timetable st) = Some (pre, old, post)"
    and "rls_old_row timetable_policies For_Update cx st old"
    and "update_timetable cx k s st = Inr st'"
  shows "timetable st' = pre @ (timetable_assign old s)\<lparr>updated_at := Some (now cx)\<rparr> # post"
  using assms
  by (auto simp: update_timetable_def Let_def update_updated_at_column_def split: if_splits)

lemma update_feedback_row:
  assumes "find_row k (feedback st) = Some (pre, old, post)"
    and "rls_old_row feedback_policies For_Update cx st old"
    and "update_feedback cx k s st = Inr st'"
  shows "feedback st' = pre @ (feedback_assign old s)\<lparr>updated_at := Some (now cx)\<rparr> # post"
  using assms
  by (auto simp: update_feedback_def Let_def update_updated_at_column_def split: if_splits)

text \<open>
  C5, as the migration has it. An UPDATE that reaches a row of \<open>profiles\<close>,
  \<open>classrooms\<close>, \<open>courses\<close>, \<open>timetable\<close> or \<open>feedback\<close> and succeeds stores the row
  as the statement submitted it, except for \<open>updated_at\<close>, which is \<open>NOW()\<close>, the start
  time of the transaction, whatever the statement supplied for it; the rows before and
  after it stay. The new \<open>updated_at\<close> is not earlier than the previous one exactly when
  the previous one is not NULL and not after that start time.
\<close>

theorem updated_at_refreshed:
  "(find_row k (profiles st) = Some (pa, pao, pap)
      \<and> rls_old_row profiles_policies For_Update cx st pao
      \<and> update_profile cx k pas st = Inr st'
    \<longrightarrow> profiles st' = pa @ (profile_assign pao pas)\<lparr>updated_at := Some (now cx)\<rparr> # pap
        \<and> (qual_holds (sql_ge (updated_at ((profile_assign pao pas)\<lparr>updated_at := Some (now cx)\<rparr>))
                              (updated_at pao))
             \<longleftrightarrow> (\<exists>t0. updated_at pao = Some t0 \<and> t0 \<le> now cx)))
   \<and> (find_row k (classrooms st) = Some (pb, pbo, pbp)
      \<and> rls_old_row classrooms_policies For_Update cx st pbo
      \<and> update_classroom cx k pbs st = Inr st'
    \<longrightarrow> classrooms st' = pb @ (classroom_assign pbo pbs)\<lparr>updated_at := Some (now cx)\<rparr> # pbp
        \<and> (qual_holds (sql_ge (updated_at ((classroom_assign pbo pbs)\<lparr>updated_at := Some (now cx)\<rparr>))
                              (updated_at pbo))
             \<longleftrightarrow> (\<exists>t0. updated_at pbo = Some t0 \<and> t0 \<le> now cx)))
   \<and> (find_row k (courses st) = Some (pc, pco, pcp)
      \<and> rls_old_row courses_policies For_Update cx st pco
      \<and> update_course cx k pcs st = Inr st'
    \<longrightarrow> courses st' = pc @ (course_assign pco pcs)\<lparr>updated_at := Some (now cx)\<rparr> # pcp
        \<and> (qual_holds (sql_ge (updated_at ((course_assign pco pcs)\<lparr>updated_at := Some (now cx)\<rparr>))
                              (updated_at pco))
             \<longleftrightarrow> (\<exists>t0. updated_at pco = Some t0 \<and> t0 \<le> now cx)))
   \<and> (find_row k (timetable st) = Some (pd, pdo, pdp)
      \<and> rls_old_row timetable_policies For_Update cx st pdo
      \<and> update_timetable cx k pds st = Inr st'
    \<longrightarrow> timetable st' = pd @ (timetable_assign pdo pds)\<lparr>updated_at := Some (now cx)\<rparr> # pdp
        \<and> (qual_holds (sql_ge (updated_at ((timetable_assign pdo pds)\<lparr>updated_at := Some (now cx)\<rparr>))
                              (updated_at pdo))
             \<longleftrightarrow> (\<exists>t0. updated_at pdo = Some t0 \<and> t0 \<le> now cx)))
   \<and> (find_row k (feedback st) = Some (pe, peo, pep)
      \<and> rls_old_row feedback_policies For_Update cx st peo
      \<and> update_feedback cx k pes st = Inr st'
    \<longrightarrow> feedback st' = pe @ (feedback_assign peo pes)\<lparr>updated_at := Some (now cx)\<rparr> # pep
        \<and> (qual_holds (sql_ge (updated_at ((feedback_assign peo pes)\<lparr>updated_at := Some (now cx)\<rparr>))
                              (updated_at peo))
             \<longleftrightarrow> (\<exists>t0. updated_at peo = Some t0 \<and> t0 \<le> now cx)))"
  using update_profile_row [of k st pa pao pap cx pas st']
    update_classroom_row [of k st pb pbo pbp cx pbs st']
    update_course_row [of k st pc pco pcp cx pcs st']
    update_timetable_row [of k st pd pdo pdp cx pds st']
    update_feedback_row [of k st pe peo pep cx pes st']
  by (simp only: refreshed_not_earlier) blast

theorem updated_at_refreshed_witness:
  "find_row 21 (classrooms sample_db) = Some ([], hd (classrooms sample_db), [])
   \<and> rls_old_row classrooms_policies For_Update (user_ctx 1 200 0) sample_db
        (hd (classrooms sample_db))
   \<and> update_classroom (user_ctx 1 200 0) 21
        (no_classroom_cols\<lparr>c_cr_capacity := Supplied (Some 60),
                            c_updated_at := Supplied (Some 7)\<rparr>) sample_db
      = Inr (sample_db\<lparr>classrooms :=
               [(hd (classrooms sample_db))\<lparr>cr_capacity := Some 60, updated_at := Some 200\<rparr>]\<rparr>)
   \<and> classrooms (sample_db\<lparr>classrooms :=
               [(hd (classrooms sample_db))\<lparr>cr_capacity := Some 60, updated_at := Some 200\<rparr>]\<rparr>)
      = [] @ (classroom_assign (hd (classrooms sample_db))
                (no_classroom_cols\<lparr>c_cr_capacity := Supplied (Some 60),
                                    c_updated_at := Supplied (Some 7)\<rparr>))
               \<lparr>updated_at := Some (now (user_ctx 1 200 0))\<rparr> # []"
proof -
  have a: "find_row 21 (classrooms sample_db) = Some ([], hd (classrooms sample_db), [])"
    by code_simp
  have b: "rls_old_row classrooms_policies For_Update (user_ctx 1 200 0) sample_db
        (hd (classrooms sample_db))"
    by code_simp
  have c: "update_classroom (user_ctx 1 200 0) 21
        (no_classroom_cols\<lparr>c_cr_capacity := Supplied (Some 60),
                            c_updated_at := Supplied (Some 7)\<rparr>) sample_db
      = Inr (sample_db\<lparr>classrooms :=
               [(hd (classrooms sample_db))\<lparr>cr_capacity := Some 60, updated_at := Some 200\<rparr>]\<rparr>)"
    by code_simp
  show ?thesis
    using a b c updated_at_refreshed [where k = 21 and st = sample_db and cx = "user_ctx 1 200 0"
        and pb = "[]" and pbo = "hd (classrooms sample_db)" and pbp = "[]"
        and pbs = "no_classroom_cols\<lparr>c_cr_capacity := Supplied (Some 60),
                            c_updated_at := Supplied (Some 7)\<rparr>"]
    by blast
qed

text \<open>
  A classroom is inserted with an \<open>updated_at\<close> of 5000 and updated in a transaction
  that starts at 200: the trigger stores 200, which is earlier than the previous value.
\<close>

theorem updated_at_decreases_counterexample:
  "exec (service_ctx 100 21) (Insert_Classroom future_room_cols) empty_db = Inr future_room_db
   \<and> map updated_at (classrooms future_room_db) = [Some 5000]
   \<and> update_classroom (service_ctx 200 0) 21
        (no_classroom_cols\<lparr>c_cr_capacity := Supplied (Some 60)\<rparr>) future_room_db
      = Inr refreshed_room_db
   \<and> map updated_at (classrooms refreshed_room_db) = [Some 200]
   \<and> \<not> qual_holds (sql_ge (Some (200 :: timestamptz)) (Some 5000))"
  using future_room_db_run refreshed_room_db_run
  by (simp add: future_room_db_def refreshed_room_db_def future_room_def empty_db_def
      qual_holds_def sql_ge_def)

subsection \<open>Nullable columns with a default\<close>

lemma course_check_credits_irrelevant:
  "co_credits r = None \<or> co_credits r = Some 3 \<Longrightarrow> course_check r"
  by (auto simp: course_check_def check_holds_def sql_gt_def)

lemma feedback_check_status_irrelevant:
  "fb_status r = None \<or> fb_status r = Some ''pending'' \<Longrightarrow> feedback_check r"
  by (auto simp: feedback_check_def check_holds_def sql_in_def)

lemma insert_course_credits:
  "insert_course cx (s\<lparr>c_co_credits := Supplied v\<rparr>) st = Inr st'
     \<Longrightarrow> \<exists>r. courses st' = courses st @ [r] \<and> co_credits r = v"
  "insert_course cx (s\<lparr>c_co_credits := Omitted\<rparr>) st = Inr st'
     \<Longrightarrow> \<exists>r. courses st' = courses st @ [r] \<and> co_credits r = Some 3"
  by (auto dest!: insert_course_Inr simp: course_assign_def course_defaults_def)

lemma insert_feedback_status:
  "insert_feedback cx (s\<lparr>c_fb_status := Supplied v\<rparr>) st = Inr st'
     \<Longrightarrow> \<exists>r. feedback st' = feedback st @ [r] \<and> fb_status r = v"
  "insert_feedback cx (s\<lparr>c_fb_status := Omitted\<rparr>) st = Inr st'
     \<Longrightarrow> \<exists>r. feedback st' = feedback st @ [r] \<and> fb_status r = Some ''pending''"
  by (auto dest!: insert_feedback_Inr simp: feedback_assign_def feedback_defaults_def)

lemma insert_course_null_credits_accepted:
  "isl (insert_course cx (s\<lparr>c_co_credits := Supplied None\<rparr>) st)
     = isl (insert_course cx (s\<lparr>c_co_credits := Omitted\<rparr>) st)"
  "insert_course cx (s\<lparr>c_co_credits := Supplied None\<rparr>) st \<noteq> Inl Check_Violation"
  by (simp_all add: insert_course_def Let_def course_assign_def course_defaults_def
      course_check_credits_irrelevant course_not_null_def unique_ok_def
      rls_check_def courses_policy_write)

lemma insert_feedback_null_status_accepted:
  "isl (insert_feedback cx (s\<lparr>c_fb_status := Supplied None\<rparr>) st)
     = isl (insert_feedback cx (s\<lparr>c_fb_status := Omitted\<rparr>) st)"
  "insert_feedback cx (s\<lparr>c_fb_status := Supplied None\<rparr>) st \<noteq> Inl Check_Violation"
  by (simp_all add: insert_feedback_def Let_def feedback_assign_def feedback_defaults_def
      feedback_check_status_irrelevant feedback_not_null_def unique_ok_def fk_ok_def
      rls_check_def policy_check_def check_expr_def using_expr_def applies_to_def
      feedback_policies_def)

text \<open>
  C10. A NULL for \<open>credits\<close> or for \<open>status\<close> passes the CHECK of its column. An INSERT
  that supplies NULL for the column never fails on a CHECK, and is accepted exactly when
  the same INSERT without the column is; the row it stores has NULL there, as any
  supplied value is stored, while the row of the INSERT without the column has the
  default, 3 or \<open>pending\<close>.
\<close>

theorem nullable_credits_and_status:
  "course_check (c\<lparr>co_credits := None\<rparr>)
   \<and> feedback_check (f\<lparr>fb_status := None\<rparr>)
   \<and> insert_course cx (s\<lparr>c_co_credits := Supplied None\<rparr>) st \<noteq> Inl Check_Violation
   \<and> isl (insert_course cx (s\<lparr>c_co_credits := Supplied None\<rparr>) st)
       = isl (insert_course cx (s\<lparr>c_co_credits := Omitted\<rparr>) st)
   \<and> (insert_course cx (s\<lparr>c_co_credits := Supplied v\<rparr>) st = Inr st'
        \<longrightarrow> (\<exists>r. courses st' = courses st @ [r] \<and> co_credits r = v))
   \<and> (insert_course cx (s\<lparr>c_co_credits := Omitted\<rparr>) st = Inr st'
        \<longrightarrow> (\<exists>r. courses st' = courses st @ [r] \<and> co_credits r = Some 3))
   \<and> insert_feedback cx (s'\<lparr>c_fb_status := Supplied None\<rparr>) st \<noteq> Inl Check_Violation
   \<and> isl (insert_feedback cx (s'\<lparr>c_fb_status := Supplied None\<rparr>) st)
       = isl (insert_feedback cx (s'\<lparr>c_fb_status := Omitted\<rparr>) st)
   \<and> (insert_feedback cx (s'\<lparr>c_fb_status := Supplied w\<rparr>) st = Inr st'
        \<longrightarrow> (\<exists>r. feedback st' = feedback st @ [r] \<and> fb_status r = w))
   \<and> (insert_feedback cx (s'\<lparr>c_fb_status := Omitted\<rparr>) st = Inr st'
        \<longrightarrow> (\<exists>r. feedback st' = feedback st @ [r] \<and> fb_status r = Some ''pending''))"
  using insert_course_credits [where cx = cx and s = s and st = st and st' = st']
    insert_feedback_status [where cx = cx and s = s' and st = st and st' = st']
    insert_course_null_credits_accepted [of cx s st]
    insert_feedback_null_status_accepted [of cx s' st]
    course_check_credits_irrelevant [of "c\<lparr>co_credits := None\<rparr>"]
    feedback_check_status_irrelevant [of "f\<lparr>fb_status := None\<rparr>"]
  by simp

theorem nullable_credits_and_status_witness:
  "insert_course (service_ctx 100 31) (cs101_cols\<lparr>c_co_credits := Supplied None\<rparr>) empty_db
     = Inr null_credits_db
   \<and> map co_credits (courses null_credits_db) = [None]
   \<and> (\<exists>r. courses null_credits_db = courses empty_db @ [r] \<and> co_credits r = None)
   \<and> \<not> isl (insert_course (service_ctx 100 31) (cs101_cols\<lparr>c_co_credits := Omitted\<rparr>)
             empty_db)
   \<and> insert_feedback (user_ctx 2 300 52) (note_cols\<lparr>c_fb_status := Supplied None\<rparr>) sample_db
     = Inr (sample_db\<lparr>feedback := feedback sample_db @
              [\<lparr>row_id = Some 52, created_at = Some 300, updated_at = Some 300,
                fb_user_id = Some 2, fb_title = Some ''Projector'',
                fb_message = Some ''The projector in A101 flickers'', fb_status = None\<rparr>]\<rparr>)
   \<and> \<not> isl (insert_feedback (user_ctx 2 300 52) (note_cols\<lparr>c_fb_status := Omitted\<rparr>)
             sample_db)"
proof -
  have a: "insert_course (service_ctx 100 31) (cs101_cols\<lparr>c_co_credits := Supplied None\<rparr>)
      empty_db = Inr null_credits_db"
    using null_credits_db_run by (simp add: null_credits_cols_def)
  have b: "map co_credits (courses null_credits_db) = [None]"
    by (simp add: null_credits_db_def empty_db_def)
  have c: "insert_feedback (user_ctx 2 300 52) (note_cols\<lparr>c_fb_status := Supplied None\<rparr>)
      sample_db
     = Inr (sample_db\<lparr>feedback := feedback sample_db @
              [\<lparr>row_id = Some 52, created_at = Some 300, updated_at = Some 300,
                fb_user_id = Some 2, fb_title = Some ''Projector'',
                fb_message = Some ''The projector in A101 flickers'', fb_status = None\<rparr>]\<rparr>)"
    by code_simp
  show ?thesis
    using a b c nullable_credits_and_status [where cx = "service_ctx 100 31" and s = cs101_cols
        and st = empty_db and st' = null_credits_db and v = None]
      nullable_credits_and_status [where cx = "user_ctx 2 300 52" and s' = note_cols
        and st = sample_db]
    by auto
qed

end
